theory Spec2Isabelle
  imports Complex_Main "HOL-Library.Word"
begin

unbundle bit_operations_syntax

section \<open>JavaScript values used by the vault's code\<close>

text \<open>
  The development follows the TypeScript sources of the 2FA vault: the Base32 decoder and
  the HOTP generator of \<^verbatim>\<open>services/totpService.ts\<close>, the Base32 encoder and the
  QR handlers of \<^verbatim>\<open>components/AddAccountModal.tsx\<close>, the envelope encryption of the
  crypto service, the user and account records of the storage service and the handlers of
  the application component.

  A JavaScript string is a \<^typ>\<open>string\<close>: one \<^typ>\<open>char\<close> per code unit, for
  strings of ASCII characters. A \<^verbatim>\<open>Uint8Array\<close> is a list of 8-bit words. A thrown exception
  is the \<open>Inl\<close> of a sum; \<^verbatim>\<open>await\<close> of a promise is the value or the exception.
\<close>

type_synonym byte = "8 word"

datatype error =
  Error string       \<comment> \<open>\<^verbatim>\<open>throw new Error(message)\<close>\<close>
  | TypeError        \<comment> \<open>a property read on \<^verbatim>\<open>null\<close> or \<^verbatim>\<open>undefined\<close>\<close>
  | DataError        \<comment> \<open>Web Crypto: key data refused by \<^verbatim>\<open>importKey\<close>\<close>
  | OperationError   \<comment> \<open>Web Crypto: AES-GCM tag verification failed\<close>
  | SyntaxError      \<comment> \<open>\<^verbatim>\<open>JSON.parse\<close> of text that is not JSON\<close>

text \<open>The digits of \<^verbatim>\<open>Number.prototype.toString(radix)\<close> and of \<^verbatim>\<open>parseInt\<close>.\<close>

definition digit_char :: "nat \<Rightarrow> char" where
  "digit_char d = ''0123456789abcdefghijklmnopqrstuvwxyz'' ! d"

text \<open>\<^verbatim>\<open>n.toString(radix)\<close> of a non-negative integer, for a radix from 2 to 36.\<close>

function toString_radix :: "nat \<Rightarrow> nat \<Rightarrow> string" where
  "toString_radix r n =
     (if r < 2 \<or> n < r then [digit_char n]
      else toString_radix r (n div r) @ [digit_char (n mod r)])"
  by pat_completeness auto
termination
  by (relation "measure (\<lambda>(r, n). n)") auto

declare toString_radix.simps [simp del]

text \<open>\<^verbatim>\<open>s.padStart(n, c)\<close> with a one-character filler.\<close>

definition padStart :: "nat \<Rightarrow> char \<Rightarrow> string \<Rightarrow> string" where
  "padStart n c s = replicate (n - length s) c @ s"

text \<open>
  The value of a character as a digit of \<^verbatim>\<open>parseInt\<close>: decimal digits, then the
  letters in either case; \<open>None\<close> for any other character.
\<close>

definition digit_value :: "char \<Rightarrow> nat option" where
  "digit_value c =
     (let k = (of_char c :: nat) in
      if 48 \<le> k \<and> k \<le> 57 then Some (k - 48)
      else if 97 \<le> k \<and> k \<le> 122 then Some (k - 87)
      else if 65 \<le> k \<and> k \<le> 90 then Some (k - 55)
      else None)"

text \<open>The white space and line terminators that \<^verbatim>\<open>parseInt\<close> skips at the start.\<close>

definition is_white_space :: "char \<Rightarrow> bool" where
  "is_white_space c = ((of_char c :: nat) \<in> {9, 10, 11, 12, 13, 32, 160})"

text \<open>The longest prefix of digits below the radix, read as a number; the digits read so far
  are counted, since \<^verbatim>\<open>parseInt\<close> is \<^verbatim>\<open>NaN\<close> when there is none.\<close>

fun parse_digits :: "nat \<Rightarrow> string \<Rightarrow> nat \<Rightarrow> nat \<Rightarrow> nat \<times> nat" where
  "parse_digits r [] acc cnt = (acc, cnt)"
| "parse_digits r (c # cs) acc cnt =
     (case digit_value c of
        None \<Rightarrow> (acc, cnt)
      | Some d \<Rightarrow> if d < r then parse_digits r cs (acc * r + d) (Suc cnt) else (acc, cnt))"

text \<open>
  \<^verbatim>\<open>parseInt(s, radix)\<close> for a radix from 2 to 36: leading white space is skipped, a sign
  is read, with radix 16 a prefix \<^verbatim>\<open>0x\<close> or \<^verbatim>\<open>0X\<close> is skipped, and the longest
  prefix of digits is the value. \<open>None\<close> is \<^verbatim>\<open>NaN\<close>.
\<close>

definition strip_hex_prefix :: "nat \<Rightarrow> string \<Rightarrow> string" where
  "strip_hex_prefix r s =
     (case s of
        a # b # rest \<Rightarrow>
          if r = 16 \<and> a = CHR ''0'' \<and> (b = CHR ''x'' \<or> b = CHR ''X'') then rest else s
      | _ \<Rightarrow> s)"

definition parseInt :: "string \<Rightarrow> nat \<Rightarrow> int option" where
  "parseInt s r =
     (let t = dropWhile is_white_space s;
          neg = (case t of c # _ \<Rightarrow> c = CHR ''-'' | [] \<Rightarrow> False);
          u = (case t of c # cs \<Rightarrow> if c = CHR ''+'' \<or> c = CHR ''-'' then cs else t | [] \<Rightarrow> t);
          (v, cnt) = parse_digits r (strip_hex_prefix r u) 0 0
      in if cnt = 0 then None else Some (if neg then - int v else int v))"

text \<open>
  An element stored into a \<^verbatim>\<open>Uint8Array\<close>: \<^verbatim>\<open>NaN\<close> becomes 0, an integer is taken
  modulo 256.
\<close>

definition toUint8 :: "int option \<Rightarrow> byte" where
  "toUint8 v = (case v of None \<Rightarrow> 0 | Some i \<Rightarrow> word_of_int i)"

text \<open>
  \<^verbatim>\<open>s.match(/.{1,n}/g)\<close>: the string cut from the left into pieces of \<open>n\<close> characters,
  the last one shorter. The dot matches no line terminator, so a line feed or carriage
  return ends the piece before it and belongs to none. With no piece at all the result is
  \<^verbatim>\<open>null\<close>, here \<open>None\<close>.
\<close>

definition is_line_terminator :: "char \<Rightarrow> bool" where
  "is_line_terminator c = ((of_char c :: nat) \<in> {10, 13})"

fun match_pieces :: "nat \<Rightarrow> string \<Rightarrow> string \<Rightarrow> string list" where
  "match_pieces n cur [] = (if cur = [] then [] else [cur])"
| "match_pieces n cur (c # cs) =
     (if is_line_terminator c then (if cur = [] then [] else [cur]) @ match_pieces n [] cs
      else if Suc (length cur) = n then (cur @ [c]) # match_pieces n [] cs
      else match_pieces n (cur @ [c]) cs)"

definition match_upto :: "nat \<Rightarrow> string \<Rightarrow> string list option" where
  "match_upto n s = (case match_pieces n [] s of [] \<Rightarrow> None | ps \<Rightarrow> Some ps)"

section \<open>Base32\<close>

definition base32Chars :: string where
  "base32Chars = ''ABCDEFGHIJKLMNOPQRSTUVWXYZ234567''"

text \<open>\<^verbatim>\<open>s.indexOf(c)\<close> for a one-character \<open>c\<close>: the first position, or \<open>-1\<close>.\<close>

fun indexOf :: "string \<Rightarrow> char \<Rightarrow> int" where
  "indexOf [] c = -1"
| "indexOf (x # xs) c =
     (if x = c then 0 else (let i = indexOf xs c in if i = -1 then -1 else i + 1))"

text \<open>\<^verbatim>\<open>s.toUpperCase()\<close> on ASCII text.\<close>

definition toUpperCase :: "string \<Rightarrow> string" where
  "toUpperCase s =
     map (\<lambda>c. let k = (of_char c :: nat) in
               if 97 \<le> k \<and> k \<le> 122 then char_of (k - 32) else c) s"

text \<open>\<^verbatim>\<open>s.replace(/=+$/, '')\<close>: the run of \<^verbatim>\<open>=\<close> at the end of the string is removed.\<close>

definition strip_padding :: "string \<Rightarrow> string" where
  "strip_padding s = rev (dropWhile (\<lambda>c. c = CHR ''='') (rev s))"

text \<open>
  The callback of \<^verbatim>\<open>split('').map(...)\<close> in \<^verbatim>\<open>base32ToBytes\<close>, joined: five bits per
  character, and the exception of the first character outside the alphabet.
\<close>

fun base32_bits :: "string \<Rightarrow> error + string" where
  "base32_bits [] = Inr []"
| "base32_bits (c # cs) =
     (let val = indexOf base32Chars c in
      if val = -1 then Inl (Error ''Invalid base32 character'')
      else (case base32_bits cs of
              Inl e \<Rightarrow> Inl e
            | Inr bits \<Rightarrow> Inr (padStart 5 (CHR ''0'') (toString_radix 2 (nat val)) @ bits)))"

text \<open>
  \<^verbatim>\<open>base32ToBytes\<close> of \<^verbatim>\<open>totpService.ts\<close>. The result of \<^verbatim>\<open>match\<close> is used unchecked
  (\<^verbatim>\<open>!\<close>): on \<^verbatim>\<open>null\<close> the call of \<^verbatim>\<open>map\<close> throws a \<^verbatim>\<open>TypeError\<close>.
\<close>

definition base32ToBytes :: "string \<Rightarrow> error + byte list" where
  "base32ToBytes base32 =
     (case base32_bits (strip_padding (toUpperCase base32)) of
        Inl e \<Rightarrow> Inl e
      | Inr bits \<Rightarrow>
          (case match_upto 8 bits of
             None \<Rightarrow> Inl TypeError
           | Some chunks \<Rightarrow>
               Inr (map toUint8
                      (take (length bits div 8) (map (\<lambda>chunk. parseInt chunk 2) chunks)))))"

text \<open>
  \<^verbatim>\<open>bytesToBase32\<close> of \<^verbatim>\<open>AddAccountModal.tsx\<close>: the bits of all bytes, then the loop over
  the positions 0, 5, 10, ...; a chunk shorter than five bits adds nothing. Indexing the
  alphabet outside its range gives \<^verbatim>\<open>undefined\<close>, appended as that word.
\<close>

definition slice :: "string \<Rightarrow> nat \<Rightarrow> nat \<Rightarrow> string" where
  "slice s i j = take (j - i) (drop i s)"

definition base32_symbol :: "int option \<Rightarrow> string" where
  "base32_symbol v =
     (case v of
        None \<Rightarrow> ''undefined''
      | Some i \<Rightarrow> if 0 \<le> i \<and> i < 32 then [base32Chars ! nat i] else ''undefined'')"

function base32_loop :: "string \<Rightarrow> nat \<Rightarrow> string \<Rightarrow> string" where
  "base32_loop bits i base32 =
     (if i < length bits then
        (let chunk = slice bits i (i + 5) in
         base32_loop bits (i + 5)
           (if length chunk = 5 then base32 @ base32_symbol (parseInt chunk 2) else base32))
      else base32)"
  by pat_completeness auto
termination
  by (relation "measure (\<lambda>(bits, i, base32). length bits - i)") auto

declare base32_loop.simps [simp del]

definition byte_bits :: "byte list \<Rightarrow> string" where
  "byte_bits bytes = concat (map (\<lambda>b. padStart 8 (CHR ''0'') (toString_radix 2 (unat b))) bytes)"

definition bytesToBase32 :: "byte list \<Rightarrow> string" where
  "bytesToBase32 bytes = base32_loop (byte_bits bytes) 0 []"

section \<open>The platform's HMAC-SHA1\<close>

text \<open>
  \<^verbatim>\<open>generateHOTP\<close> signs with \<^verbatim>\<open>crypto.subtle\<close> (\<^verbatim>\<open>HMAC\<close>, \<^verbatim>\<open>SHA-1\<close>). The
  primitive is the platform's, not the repository's; it is written here as RFC 3174 and
  RFC 2104 define it. A 32-bit value is a natural number below \<open>2^32\<close>, with the
  wrap-around of each addition and rotation written out.
\<close>

definition rotl32 :: "nat \<Rightarrow> nat \<Rightarrow> nat" where
  "rotl32 n w = (w * 2 ^ n) mod 4294967296 + w div 2 ^ (32 - n)"

definition be32 :: "byte list \<Rightarrow> nat" where
  "be32 bs = foldl (\<lambda>acc b. acc * 256 + unat b) 0 bs"

definition u32_bytes :: "nat \<Rightarrow> byte list" where
  "u32_bytes w = map (\<lambda>k. of_nat ((w div 2 ^ k) mod 256)) [24, 16, 8, 0]"

definition u64_bytes :: "nat \<Rightarrow> byte list" where
  "u64_bytes w = map (\<lambda>k. of_nat ((w div 2 ^ k) mod 256)) [56, 48, 40, 32, 24, 16, 8, 0]"

definition sha1_pad :: "byte list \<Rightarrow> byte list" where
  "sha1_pad m =
     m @ [0x80] @ replicate ((119 - length m mod 64) mod 64) 0 @ u64_bytes (8 * length m)"

fun chunks_of :: "nat \<Rightarrow> 'a list \<Rightarrow> 'a list list" where
  "chunks_of n [] = []"
| "chunks_of n (x # xs) = take n (x # xs) # chunks_of n (drop (n - 1) xs)"

text \<open>The message schedule, the newest word first: \<open>ws ! 2\<close> is \<open>W(t-3)\<close>.\<close>

function schedule :: "nat \<Rightarrow> nat list \<Rightarrow> nat list" where
  "schedule t ws =
     (if t < 80 then
        schedule (t + 1) (rotl32 1 (ws ! 2 XOR ws ! 7 XOR ws ! 13 XOR ws ! 15) # ws)
      else ws)"
  by pat_completeness auto
termination
  by (relation "measure (\<lambda>(t, ws). 80 - t)") auto

declare schedule.simps [simp del]

definition sha1_f :: "nat \<Rightarrow> nat \<Rightarrow> nat \<Rightarrow> nat \<Rightarrow> nat" where
  "sha1_f t b c d =
     (if t < 20 then (b AND c) OR ((4294967295 - b) AND d)
      else if t < 40 then b XOR c XOR d
      else if t < 60 then (b AND c) OR (b AND d) OR (c AND d)
      else b XOR c XOR d)"

definition sha1_k :: "nat \<Rightarrow> nat" where
  "sha1_k t =
     (if t < 20 then 0x5A827999 else if t < 40 then 0x6ED9EBA1
      else if t < 60 then 0x8F1BBCDC else 0xCA62C1D6)"

type_synonym sha1_state = "nat \<times> nat \<times> nat \<times> nat \<times> nat"

fun sha1_rounds :: "nat \<Rightarrow> nat list \<Rightarrow> sha1_state \<Rightarrow> sha1_state" where
  "sha1_rounds t [] s = s"
| "sha1_rounds t (w # ws) (a, b, c, d, e) =
     sha1_rounds (t + 1) ws
       ((rotl32 5 a + sha1_f t b c d + e + sha1_k t + w) mod 4294967296,
        a, rotl32 30 b, c, d)"

definition sha1_block :: "sha1_state \<Rightarrow> byte list \<Rightarrow> sha1_state" where
  "sha1_block h block =
     (case h of (h0, h1, h2, h3, h4) \<Rightarrow>
        (case sha1_rounds 0 (rev (schedule 16 (rev (map be32 (chunks_of 4 block))))) h of
           (a, b, c, d, e) \<Rightarrow>
             ((h0 + a) mod 4294967296, (h1 + b) mod 4294967296, (h2 + c) mod 4294967296,
              (h3 + d) mod 4294967296, (h4 + e) mod 4294967296)))"

definition sha1_init :: sha1_state where
  "sha1_init = (0x67452301, 0xEFCDAB89, 0x98BADCFE, 0x10325476, 0xC3D2E1F0)"

definition sha1_digest :: "sha1_state \<Rightarrow> byte list" where
  "sha1_digest h = (case h of (a, b, c, d, e) \<Rightarrow> concat (map u32_bytes [a, b, c, d, e]))"

definition sha1 :: "byte list \<Rightarrow> byte list" where
  "sha1 m = sha1_digest (foldl sha1_block sha1_init (chunks_of 64 (sha1_pad m)))"

definition hmac_sha1 :: "byte list \<Rightarrow> byte list \<Rightarrow> byte list" where
  "hmac_sha1 key msg =
     (let k0 = (if length key > 64 then sha1 key else key);
          k = k0 @ replicate (64 - length k0) 0
      in sha1 (map (\<lambda>b. b XOR 0x5c) k @ sha1 (map (\<lambda>b. b XOR 0x36) k @ msg)))"

text \<open>
  \<^verbatim>\<open>crypto.subtle.importKey('raw', keyData, {name: 'HMAC', hash: 'SHA-1'}, ...)\<close>: the
  Web Cryptography API refuses key data of length zero with a \<^verbatim>\<open>DataError\<close>; any other
  key data is the key.
\<close>

definition importKey_HMAC :: "byte list \<Rightarrow> error + byte list" where
  "importKey_HMAC keyData = (if keyData = [] then Inl DataError else Inr keyData)"

section \<open>HOTP and TOTP\<close>

text \<open>
  The remainder operator \<^verbatim>\<open>%\<close> of JavaScript on integers, for a positive divisor: the
  result has the sign of the dividend.
\<close>

definition js_rem :: "int \<Rightarrow> int \<Rightarrow> int" where
  "js_rem a b = (if a < 0 then - ((- a) mod b) else a mod b)"

text \<open>
  \<^verbatim>\<open>view.setUint32(offset, v, false)\<close>: the integer modulo \<open>2^32\<close>, most significant
  byte first.
\<close>

definition setUint32 :: "int \<Rightarrow> byte list" where
  "setUint32 v =
     (let w = (word_of_int v :: 32 word) in
      [ucast (drop_bit 24 w), ucast (drop_bit 16 w), ucast (drop_bit 8 w), ucast w])"

text \<open>
  \<^verbatim>\<open>bytes[i]\<close> of a typed array is \<^verbatim>\<open>undefined\<close> outside its range, and a bitwise
  operator reads \<^verbatim>\<open>undefined\<close> as 0 and any byte as a 32-bit integer.
\<close>

definition element :: "byte list \<Rightarrow> int \<Rightarrow> byte option" where
  "element bs i = (if 0 \<le> i \<and> i < int (length bs) then Some (bs ! nat i) else None)"

definition toInt32 :: "byte option \<Rightarrow> 32 word" where
  "toInt32 v = (case v of None \<Rightarrow> 0 | Some b \<Rightarrow> ucast b)"

text \<open>\<^verbatim>\<open>n.toString()\<close> of an integer.\<close>

definition int_toString :: "int \<Rightarrow> string" where
  "int_toString i =
     (if i < 0 then CHR ''-'' # toString_radix 10 (nat (- i)) else toString_radix 10 (nat i))"

text \<open>
  \<^verbatim>\<open>generateHOTP\<close> of \<^verbatim>\<open>totpService.ts\<close>. The counter is an integer-valued number; the
  bitwise operators work on 32-bit integers and their result is read as a signed one.
\<close>

definition generateHOTP :: "string \<Rightarrow> int \<Rightarrow> error + string" where
  "generateHOTP secret counter =
     (case base32ToBytes secret of
        Inl e \<Rightarrow> Inl e
      | Inr decodedSecret \<Rightarrow>
          (let hi = counter div 0x100000000;
               lo = js_rem counter 0x100000000;
               buffer = setUint32 hi @ setUint32 lo
           in case importKey_HMAC decodedSecret of
                Inl e \<Rightarrow> Inl e
              | Inr key \<Rightarrow>
                  (let hmacBytes = hmac_sha1 key buffer;
                       offset = sint (toInt32 (element hmacBytes (int (length hmacBytes) - 1))
                                      AND 0x0f);
                       binary = sint
                         (push_bit 24 (toInt32 (element hmacBytes offset) AND 0x7f) OR
                          push_bit 16 (toInt32 (element hmacBytes (offset + 1)) AND 0xff) OR
                          push_bit 8 (toInt32 (element hmacBytes (offset + 2)) AND 0xff) OR
                          (toInt32 (element hmacBytes (offset + 3)) AND 0xff));
                       otp = js_rem binary 1000000
                   in Inr (padStart 6 (CHR ''0'') (int_toString otp)))))"

text \<open>
  \<^verbatim>\<open>Math.floor(Date.now() / 1000 / period)\<close> with \<^verbatim>\<open>period = 30\<close>: the counter of the
  30-second period that holds the time \<open>now\<close>, in milliseconds. The divisions are those of
  the real numbers; the rounding of floating-point division is not modelled.
\<close>

definition totp_counter :: "int \<Rightarrow> int" where
  "totp_counter now = \<lfloor>(of_int now :: real) / 1000 / 30\<rfloor>"

definition generateTOTP :: "string \<Rightarrow> int \<Rightarrow> error + string" where
  "generateTOTP secret now = generateHOTP secret (totp_counter now)"

section \<open>The storage service\<close>

text \<open>
  \<^verbatim>\<open>localStorage\<close> is a map from keys to values. \<^verbatim>\<open>JSON.stringify\<close> and
  \<^verbatim>\<open>JSON.parse\<close> are the platform's: they are parameters, one pair for the user record
  and one for the account list. \<open>parse_user\<close> stands for \<^verbatim>\<open>JSON.parse\<close> followed by the
  test of \<^verbatim>\<open>loadUser\<close> that \<^verbatim>\<open>email\<close> and \<^verbatim>\<open>salt\<close> are strings: \<open>None\<close> when
  the text does not parse or the test fails.
\<close>

type_synonym storage = "string \<rightharpoonup> string"

definition getItem :: "storage \<Rightarrow> string \<Rightarrow> string option" where
  "getItem ls k = ls k"

definition setItem :: "storage \<Rightarrow> string \<Rightarrow> string \<Rightarrow> storage" where
  "setItem ls k v = ls(k \<mapsto> v)"

definition removeItem :: "storage \<Rightarrow> string \<Rightarrow> storage" where
  "removeItem ls k = ls(k := None)"

text \<open>A string in a condition: \<^verbatim>\<open>null\<close> and the empty string are false.\<close>

definition truthy :: "'a list option \<Rightarrow> bool" where
  "truthy v = (case v of None \<Rightarrow> False | Some s \<Rightarrow> s \<noteq> [])"

record UserData =
  salt :: string
  email :: string

text \<open>
  \<^verbatim>\<open>Account\<close> of \<^verbatim>\<open>types.ts\<close>, and \<^verbatim>\<open>Omit<Account, 'id'>\<close>, the account before it
  is given its \<^verbatim>\<open>id\<close>.
\<close>

record NewAccount =
  issuer :: string
  name :: string
  secret :: string
  username :: "string option"
  password :: "string option"

record Account = NewAccount +
  account_id :: string

text \<open>A JavaScript string that the code only carries: its UTF-16 code units.\<close>

type_synonym text16 = "16 word list"

record json =
  stringify_user :: "UserData \<Rightarrow> string"
  parse_user :: "string \<Rightarrow> UserData option"
  stringify_accounts :: "Account list \<Rightarrow> text16"
  parse_accounts :: "text16 \<Rightarrow> error + Account list"

definition getStorageKey :: "string \<Rightarrow> string" where
  "getStorageKey e = ''totp-accounts-'' @ e"

definition getUserKey :: "string \<Rightarrow> string" where
  "getUserKey e = ''totp-user-'' @ e"

definition saveUser :: "json \<Rightarrow> storage \<Rightarrow> string \<Rightarrow> string \<Rightarrow> storage" where
  "saveUser J ls e saltHex = setItem ls (getUserKey e) (stringify_user J \<lparr>salt = saltHex, email = e\<rparr>)"

definition loadUser :: "json \<Rightarrow> storage \<Rightarrow> string \<Rightarrow> UserData option" where
  "loadUser J ls e =
     (let data = getItem ls (getUserKey e) in
      if \<not> truthy data then None else parse_user J (the data))"

definition userExists :: "storage \<Rightarrow> string \<Rightarrow> bool" where
  "userExists ls e = (getItem ls (getUserKey e) \<noteq> None)"

text \<open>\<^verbatim>\<open>updateUserEmail\<close>: the result and the storage it leaves.\<close>

definition updateUserEmail :: "json \<Rightarrow> storage \<Rightarrow> string \<Rightarrow> string \<Rightarrow> bool \<times> storage" where
  "updateUserEmail J ls oldEmail newEmail =
     (if userExists ls newEmail then (False, ls)
      else
        (let ls1 =
               (case loadUser J ls oldEmail of
                  Some userData \<Rightarrow>
                    removeItem
                      (setItem ls (getUserKey newEmail)
                         (stringify_user J (userData\<lparr>email := newEmail\<rparr>)))
                      (getUserKey oldEmail)
                | None \<Rightarrow> ls);
             accountsData = getItem ls1 (getStorageKey oldEmail);
             ls2 =
               (if truthy accountsData then
                  removeItem (setItem ls1 (getStorageKey newEmail) (the accountsData))
                    (getStorageKey oldEmail)
                else ls1)
         in (True, ls2)))"

section \<open>HOTP as RFC 4226 states it\<close>

text \<open>
  The reference the generator is compared with, written from the specification's words:
  the counter as eight bytes, most significant first; the HMAC-SHA1 digest of it under
  the key; the offset in the low four bits of the last digest byte; the four bytes at the
  offset with the top bit masked, as a 31-bit number; that number modulo one million, as
  six decimal digits.
\<close>

definition counter_bytes :: "64 word \<Rightarrow> byte list" where
  "counter_bytes c = map (\<lambda>k. ucast (drop_bit k c)) [56, 48, 40, 32, 24, 16, 8, 0]"

definition dynamic_truncation :: "byte list \<Rightarrow> nat" where
  "dynamic_truncation digest =
     (let offset = unat (digest ! 19 AND 0x0F) in
      unat (push_bit 24 (ucast (digest ! offset AND 0x7F) :: 32 word) OR
            push_bit 16 (ucast (digest ! (offset + 1) AND 0xFF)) OR
            push_bit 8 (ucast (digest ! (offset + 2) AND 0xFF)) OR
            ucast (digest ! (offset + 3) AND 0xFF)))"

definition six_digits :: "nat \<Rightarrow> string" where
  "six_digits n = map (\<lambda>k. digit_char (n div 10 ^ k mod 10)) [5, 4, 3, 2, 1, 0]"

definition hotp_rfc4226 :: "byte list \<Rightarrow> 64 word \<Rightarrow> string" where
  "hotp_rfc4226 key counter =
     six_digits (dynamic_truncation (hmac_sha1 key (counter_bytes counter)) mod 1000000)"

text \<open>The \<open>k\<close> low decimal digits of a number, most significant first.\<close>

fun dec_digits :: "nat \<Rightarrow> nat \<Rightarrow> string" where
  "dec_digits 0 n = []"
| "dec_digits (Suc k) n = dec_digits k (n div 10) @ [digit_char (n mod 10)]"

section \<open>Enrollment: verifying a code\<close>

text \<open>
  \<^verbatim>\<open>Promise.all\<close>: the values of all promises, or the exception of the first one that
  is rejected.
\<close>

fun promise_all :: "(error + 'a) list \<Rightarrow> error + 'a list" where
  "promise_all [] = Inr []"
| "promise_all (Inl e # ps) = Inl e"
| "promise_all (Inr v # ps) = (case promise_all ps of Inl e \<Rightarrow> Inl e | Inr vs \<Rightarrow> Inr (v # vs))"

text \<open>
  \<^verbatim>\<open>handleVerificationSubmit\<close> of \<^verbatim>\<open>AddAccountModal.tsx\<close>, by what it does: nothing
  without an account to verify; \<^verbatim>\<open>onAddAccount(accountToVerify)\<close>; the message that the
  code is incorrect; or, when generating a code throws, the message that verification
  failed.
\<close>

datatype verification = NothingToVerify | Added NewAccount | IncorrectCode | VerificationFailed

definition handleVerificationSubmit ::
  "NewAccount option \<Rightarrow> string \<Rightarrow> int \<Rightarrow> verification" where
  "handleVerificationSubmit accountToVerify verificationCode now =
     (case accountToVerify of
        None \<Rightarrow> NothingToVerify
      | Some account \<Rightarrow>
          (let counter = totp_counter now in
           case promise_all
                  [generateHOTP (secret account) (counter - 1),
                   generateHOTP (secret account) counter,
                   generateHOTP (secret account) (counter + 1)] of
             Inl e \<Rightarrow> VerificationFailed
           | Inr validCodes \<Rightarrow>
               if verificationCode \<in> set validCodes then Added account else IncorrectCode))"

section \<open>The platform's text codec\<close>

text \<open>
  \<^verbatim>\<open>new TextEncoder().encode(s)\<close> and \<^verbatim>\<open>new TextDecoder().decode(bytes)\<close> are the
  platform's; they are written here as the Encoding Standard defines them. The encoder
  reads the code units as scalar values, an unpaired surrogate as U+FFFD, and writes each in
  UTF-8. The decoder drops a leading byte order mark (\<^verbatim>\<open>ignoreBOM\<close> is false by
  default), decodes UTF-8 with U+FFFD for every malformed sequence (\<^verbatim>\<open>fatal\<close> is false
  by default) and writes the code points as UTF-16 code units.
\<close>

definition is_high_surrogate :: "16 word \<Rightarrow> bool" where
  "is_high_surrogate u = (0xD800 \<le> u \<and> u \<le> 0xDBFF)"

definition is_low_surrogate :: "16 word \<Rightarrow> bool" where
  "is_low_surrogate u = (0xDC00 \<le> u \<and> u \<le> 0xDFFF)"

fun scalar_values :: "text16 \<Rightarrow> nat list" where
  "scalar_values [] = []"
| "scalar_values [u] = [if is_high_surrogate u \<or> is_low_surrogate u then 0xFFFD else unat u]"
| "scalar_values (u # v # rest) =
     (if is_high_surrogate u \<and> is_low_surrogate v then
        (0x10000 + (unat u - 0xD800) * 0x400 + (unat v - 0xDC00)) # scalar_values rest
      else
        (if is_high_surrogate u \<or> is_low_surrogate u then 0xFFFD else unat u)
          # scalar_values (v # rest))"

definition utf8_bytes :: "nat \<Rightarrow> byte list" where
  "utf8_bytes c =
     (if c < 0x80 then [of_nat c]
      else if c < 0x800 then [of_nat (0xC0 + c div 64), of_nat (0x80 + c mod 64)]
      else if c < 0x10000 then
        [of_nat (0xE0 + c div 4096), of_nat (0x80 + c div 64 mod 64), of_nat (0x80 + c mod 64)]
      else
        [of_nat (0xF0 + c div 262144), of_nat (0x80 + c div 4096 mod 64),
         of_nat (0x80 + c div 64 mod 64), of_nat (0x80 + c mod 64)])"

definition TextEncoder_encode :: "text16 \<Rightarrow> byte list" where
  "TextEncoder_encode s = concat (map utf8_bytes (scalar_values s))"

text \<open>
  The UTF-8 decoder's state: the code point so far, the number of bytes still needed and
  the bounds of the next byte. A byte outside the bounds ends the sequence with U+FFFD and
  is read again as the start of a new one.
\<close>

function utf8_decode :: "nat \<Rightarrow> nat \<Rightarrow> nat \<Rightarrow> nat \<Rightarrow> byte list \<Rightarrow> nat list" where
  "utf8_decode cp needed lower upper [] = (if needed \<noteq> 0 then [0xFFFD] else [])"
| "utf8_decode cp needed lower upper (b # bs) =
     (let byte = unat b in
      if needed = 0 then
        (if byte \<le> 0x7F then byte # utf8_decode 0 0 0x80 0xBF bs
         else if 0xC2 \<le> byte \<and> byte \<le> 0xDF then utf8_decode (byte mod 32) 1 0x80 0xBF bs
         else if 0xE0 \<le> byte \<and> byte \<le> 0xEF then
           utf8_decode (byte mod 16) 2 (if byte = 0xE0 then 0xA0 else 0x80)
             (if byte = 0xED then 0x9F else 0xBF) bs
         else if 0xF0 \<le> byte \<and> byte \<le> 0xF4 then
           utf8_decode (byte mod 8) 3 (if byte = 0xF0 then 0x90 else 0x80)
             (if byte = 0xF4 then 0x8F else 0xBF) bs
         else 0xFFFD # utf8_decode 0 0 0x80 0xBF bs)
      else if byte < lower \<or> upper < byte then 0xFFFD # utf8_decode 0 0 0x80 0xBF (b # bs)
      else if needed = 1 then (cp * 64 + byte mod 64) # utf8_decode 0 0 0x80 0xBF bs
      else utf8_decode (cp * 64 + byte mod 64) (needed - 1) 0x80 0xBF bs)"
  by pat_completeness auto
termination
  by (relation "measure (\<lambda>(cp, needed, lower, upper, bs).
        2 * length bs + (if needed = 0 then 0 else 1))") auto

declare utf8_decode.simps [simp del]

definition utf16_units :: "nat \<Rightarrow> text16" where
  "utf16_units c =
     (if c < 0x10000 then [of_nat c]
      else [of_nat (0xD800 + (c - 0x10000) div 0x400), of_nat (0xDC00 + (c - 0x10000) mod 0x400)])"

definition strip_bom :: "byte list \<Rightarrow> byte list" where
  "strip_bom bs =
     (case bs of
        a # b # c # rest \<Rightarrow> if a = 0xEF \<and> b = 0xBB \<and> c = 0xBF then rest else bs
      | _ \<Rightarrow> bs)"

definition TextDecoder_decode :: "byte list \<Rightarrow> text16" where
  "TextDecoder_decode bs = concat (map utf16_units (utf8_decode 0 0 0x80 0xBF (strip_bom bs)))"

section \<open>The crypto service\<close>

text \<open>
  The Web Cryptography API is the platform's: its random source, PBKDF2 key derivation and
  AES-GCM are parameters. The random source has a state \<open>'r\<close>; a call takes the number of
  bytes and returns them with the next state. A key is a value of \<open>'k\<close>. AES-GCM takes the
  key, the IV and the data; decryption throws when the tag does not verify.
\<close>

record ('k, 'r) webcrypto =
  getRandomValues :: "'r \<Rightarrow> nat \<Rightarrow> byte list \<times> 'r"
  deriveKey_PBKDF2 :: "byte list \<Rightarrow> byte list \<Rightarrow> nat \<Rightarrow> 'k"
  encrypt_AES_GCM :: "'k \<Rightarrow> byte list \<Rightarrow> byte list \<Rightarrow> byte list"
  decrypt_AES_GCM :: "'k \<Rightarrow> byte list \<Rightarrow> byte list \<Rightarrow> error + byte list"

text \<open>\<^verbatim>\<open>Array.from(bytes).map(b => b.toString(16).padStart(2, '0')).join('')\<close>.\<close>

definition hex_byte :: "byte \<Rightarrow> string" where
  "hex_byte b = padStart 2 (CHR ''0'') (toString_radix 16 (unat b))"

definition toHex :: "byte list \<Rightarrow> string" where
  "toHex bytes = concat (map hex_byte bytes)"

text \<open>\<^verbatim>\<open>hex.match(/.{1,2}/g)!.map(byte => parseInt(byte, 16))\<close> in a \<^verbatim>\<open>Uint8Array\<close>.\<close>

definition fromHex :: "string \<Rightarrow> error + byte list" where
  "fromHex hex =
     (case match_upto 2 hex of
        None \<Rightarrow> Inl TypeError
      | Some pieces \<Rightarrow> Inr (map (\<lambda>byte. toUint8 (parseInt byte 16)) pieces))"

text \<open>\<^verbatim>\<open>s.split(c)\<close> for a one-character separator: always at least one piece.\<close>

fun split_on :: "char \<Rightarrow> string \<Rightarrow> string list" where
  "split_on c [] = [[]]"
| "split_on c (x # xs) =
     (if x = c then [] # split_on c xs
      else (case split_on c xs of p # ps \<Rightarrow> (x # p) # ps | [] \<Rightarrow> [[x]]))"

text \<open>An array element in a destructuring pattern: \<^verbatim>\<open>undefined\<close> past the end.\<close>

definition item :: "'a list \<Rightarrow> nat \<Rightarrow> 'a option" where
  "item xs i = (if i < length xs then Some (xs ! i) else None)"

definition deriveKey :: "('k, 'r) webcrypto \<Rightarrow> text16 \<Rightarrow> byte list \<Rightarrow> 'k" where
  "deriveKey W pw salt_bytes = deriveKey_PBKDF2 W (TextEncoder_encode pw) salt_bytes 100000"

text \<open>\<^verbatim>\<open>encrypt\<close>: the envelope and the next state of the random source.\<close>

definition encrypt :: "('k, 'r) webcrypto \<Rightarrow> 'r \<Rightarrow> text16 \<Rightarrow> 'k \<Rightarrow> string \<times> 'r" where
  "encrypt W rng data key =
     (let (iv, rng') = getRandomValues W rng 12;
          encryptedData = encrypt_AES_GCM W key iv (TextEncoder_encode data);
          ivHex = toHex iv;
          encryptedHex = toHex encryptedData
      in (ivHex @ '':'' @ encryptedHex, rng'))"

definition decrypt :: "('k, 'r) webcrypto \<Rightarrow> string \<Rightarrow> 'k \<Rightarrow> error + text16" where
  "decrypt W encryptedStr key =
     (let parts = split_on (CHR '':'') encryptedStr;
          ivHex = item parts 0;
          encryptedHex = item parts 1
      in if \<not> truthy ivHex \<or> \<not> truthy encryptedHex then
           Inl (Error ''Invalid encrypted data format'')
         else
           (case fromHex (the ivHex) of
              Inl e \<Rightarrow> Inl e
            | Inr iv \<Rightarrow>
                (case fromHex (the encryptedHex) of
                   Inl e \<Rightarrow> Inl e
                 | Inr encryptedData \<Rightarrow>
                     (case decrypt_AES_GCM W key iv encryptedData of
                        Inl e \<Rightarrow> Inl e
                      | Inr decryptedData \<Rightarrow> Inr (TextDecoder_decode decryptedData)))))"

text \<open>
  A platform to evaluate the code on: the random source is a list of bytes read from the
  front, a key is the list of the password bytes and the salt, and the cipher appends
  a 16-byte tag made of the key's, the IV's and the data's lengths and sums, which
  decryption checks and removes. It is a stand-in with the interface of AES-GCM (decryption
  returns what encryption was given, under the same key and IV, and refuses data that is
  shorter than the tag or has another tag), not a cipher.
\<close>

definition toy_tag :: "byte list \<Rightarrow> byte list \<Rightarrow> byte list \<Rightarrow> byte list" where
  "toy_tag key iv data =
     replicate 13 0 @ [sum_list key + of_nat (length key), sum_list iv, sum_list data]"

definition toy_encrypt :: "byte list \<Rightarrow> byte list \<Rightarrow> byte list \<Rightarrow> byte list" where
  "toy_encrypt key iv data = data @ toy_tag key iv data"

definition toy_decrypt :: "byte list \<Rightarrow> byte list \<Rightarrow> byte list \<Rightarrow> error + byte list" where
  "toy_decrypt key iv data =
     (if length data < 16 then Inl OperationError
      else (let plain = take (length data - 16) data in
            if drop (length data - 16) data = toy_tag key iv plain then Inr plain
            else Inl OperationError))"

definition toy_webcrypto :: "(byte list, byte list) webcrypto" where
  "toy_webcrypto =
     \<lparr>getRandomValues = (\<lambda>rng n. (take n (rng @ replicate n 0), drop n rng)),
      deriveKey_PBKDF2 = (\<lambda>pw salt_bytes iterations. pw @ salt_bytes),
      encrypt_AES_GCM = toy_encrypt,
      decrypt_AES_GCM = toy_decrypt\<rparr>"

text \<open>
  The fields of an envelope as \<^verbatim>\<open>decrypt\<close> reads them: the IV field is the text before
  the first \<^verbatim>\<open>:\<close>, the ciphertext field the text after it, up to the next \<^verbatim>\<open>:\<close>.
\<close>

definition iv_field :: "string \<Rightarrow> string" where
  "iv_field s = takeWhile (\<lambda>x. x \<noteq> CHR '':'') s"

definition ciphertext_field :: "string \<Rightarrow> string" where
  "ciphertext_field s =
     takeWhile (\<lambda>x. x \<noteq> CHR '':'') (drop 1 (dropWhile (\<lambda>x. x \<noteq> CHR '':'') s))"

text \<open>
  What the code relies on from the Web Cryptography API: \<^verbatim>\<open>getRandomValues\<close> fills the
  whole array, AES-GCM's output is the data followed by a 16-byte tag, and decryption under
  the key and IV of the encryption returns the data.
\<close>

definition webcrypto_contract :: "('k, 'r) webcrypto \<Rightarrow> bool" where
  "webcrypto_contract W =
     ((\<forall>rng n. length (fst (getRandomValues W rng n)) = n) \<and>
      (\<forall>key iv data. length (encrypt_AES_GCM W key iv data) = length data + 16) \<and>
      (\<forall>key iv data. decrypt_AES_GCM W key iv (encrypt_AES_GCM W key iv data) = Inr data))"

section \<open>The encrypted account store\<close>

text \<open>
  \<^verbatim>\<open>saveAccounts\<close> and \<^verbatim>\<open>loadAccounts\<close> of the storage service. Saving draws an IV,
  so it takes and returns the state of the random source with the storage.
\<close>

definition saveAccounts ::
  "('k, 'r) webcrypto \<Rightarrow> json \<Rightarrow> storage \<times> 'r \<Rightarrow> Account list \<Rightarrow> 'k \<Rightarrow> string \<Rightarrow> storage \<times> 'r" where
  "saveAccounts W J s accs key e =
     (let data = stringify_accounts J accs;
          (encryptedData, rng') = encrypt W (snd s) data key
      in (setItem (fst s) (getStorageKey e) encryptedData, rng'))"

definition loadAccounts ::
  "('k, 'r) webcrypto \<Rightarrow> json \<Rightarrow> storage \<Rightarrow> 'k \<Rightarrow> string \<Rightarrow> error + Account list" where
  "loadAccounts W J ls key e =
     (let encryptedData = getItem ls (getStorageKey e) in
      if \<not> truthy encryptedData then Inr []
      else (case decrypt W (the encryptedData) key of
              Inl err \<Rightarrow> Inl err
            | Inr decryptedData \<Rightarrow> parse_accounts J decryptedData))"

section \<open>The application: changing the password\<close>

text \<open>
  The state that \<^verbatim>\<open>handleChangePassword\<close> of the application component reads and
  writes: the storage and the random source, and the component's \<^verbatim>\<open>accounts\<close>,
  \<^verbatim>\<open>masterKey\<close> and \<^verbatim>\<open>currentUser\<close>. The handler returns normally or throws, and
  leaves a state. Its messages are written without their accents.
\<close>

record ('k, 'r) app =
  localStorage :: storage
  randomSource :: 'r
  accounts :: "Account list"
  masterKey :: "'k option"
  currentUser :: "string option"

definition handleChangePassword ::
  "('k, 'r) webcrypto \<Rightarrow> json \<Rightarrow> ('k, 'r) app \<Rightarrow> text16 \<Rightarrow> text16 \<Rightarrow>
     (error + unit) \<times> ('k, 'r) app" where
  "handleChangePassword W J st currentPassword newPassword =
     (if \<not> truthy (currentUser st) \<or> masterKey st = None then
        (Inl (Error ''Usuario nao esta logado ou a chave mestra esta ausente.''), st)
      else
        (case loadUser J (localStorage st) (the (currentUser st)) of
           None \<Rightarrow> (Inl (Error ''Dados do usuario nao encontrados.''), st)
         | Some userData \<Rightarrow>
             (case fromHex (salt userData) of
                Inl e \<Rightarrow> (Inl e, st)
              | Inr salt_bytes \<Rightarrow>
                  (case loadAccounts W J (localStorage st)
                          (deriveKey W currentPassword salt_bytes) (the (currentUser st)) of
                     Inl e \<Rightarrow> (Inl (Error ''A senha atual esta incorreta.''), st)
                   | Inr verified \<Rightarrow>
                       (let newKey = deriveKey W newPassword salt_bytes;
                            (ls', rng') =
                              saveAccounts W J (localStorage st, randomSource st) (accounts st) newKey
                                (the (currentUser st))
                        in (Inr (),
                            st\<lparr>localStorage := ls', randomSource := rng', masterKey := Some newKey\<rparr>))))))"

text \<open>A JSON codec to evaluate the code on: the user record is its salt, a bar and its
  email; an account list is written as the code units of its secrets, one line each.\<close>

definition toy_json :: json where
  "toy_json =
     \<lparr>stringify_user = (\<lambda>u. salt u @ ''|'' @ email u),
      parse_user =
        (\<lambda>t. if CHR ''|'' \<in> set t then
               Some \<lparr>salt = takeWhile (\<lambda>c. c \<noteq> CHR ''|'') t,
                     email = drop 1 (dropWhile (\<lambda>c. c \<noteq> CHR ''|'') t)\<rparr>
             else None),
      stringify_accounts =
        (\<lambda>accs. concat (map (\<lambda>a. map (\<lambda>c. of_nat (of_char c)) (secret a) @ [10]) accs)),
      parse_accounts = (\<lambda>t. if 0 \<in> set t then Inl SyntaxError else Inr [])\<rparr>"

section \<open>Importing a migration payload\<close>

text \<open>
  The bulk branch of \<^verbatim>\<open>handleQrScan\<close>, from the object that the protobuf library returns
  for the decoded payload: \<^verbatim>\<open>otpParameters\<close> is absent or a list of sub-messages, and a
  field of a sub-message that the payload does not carry is absent. A typed array made
  from an absent secret is empty. The result is the argument of
  \<^verbatim>\<open>onAddMultipleAccounts\<close>, or the exception for a payload without a sub-message.
\<close>

record OtpParameters =
  otp_secret :: "byte list option"
  otp_name :: "string option"
  otp_issuer :: "string option"

text \<open>\<^verbatim>\<open>a || b\<close> on strings that may be absent: the first one that is present and not empty.\<close>

definition or_else :: "string option \<Rightarrow> string option \<Rightarrow> string option" where
  "or_else a b = (if truthy a then a else b)"

definition handleQrScan_migration :: "OtpParameters list option \<Rightarrow> error + NewAccount list" where
  "handleQrScan_migration otpParameters =
     (if otpParameters = None \<or> length (the otpParameters) = 0 then
        Inl (Error ''Nenhuma conta encontrada no QR code de migracao.'')
      else
        Inr (map (\<lambda>param.
                    \<lparr>issuer = the (or_else (or_else (otp_issuer param) (otp_name param)) (Some '''')),
                     name = the (or_else (otp_name param) (Some '''')),
                     secret = bytesToBase32 (case otp_secret param of None \<Rightarrow> [] | Some b \<Rightarrow> b),
                     username = None,
                     password = None\<rparr>)
               (the otpParameters)))"

text \<open>A stored vault to evaluate the handler on: one user, one account, and the account
  list encrypted under the key of the password \<^verbatim>\<open>pw\<close>.\<close>

definition sample_user :: string where
  "sample_user = ''a@x.org''"

definition sample_account :: Account where
  "sample_account =
     \<lparr>issuer = ''Example'', name = ''alice'', secret = ''JBSWY3DP'',
     username = None, password = None, account_id = ''1''\<rparr>"

definition sample_blob :: string where
  "sample_blob =
     fst (encrypt toy_webcrypto [1, 2, 3, 4, 5, 6, 7, 8, 9, 10, 11, 12]
            (stringify_accounts toy_json [sample_account])
            (deriveKey toy_webcrypto [0x70, 0x77] [10, 11]))"

definition sample_state :: "(byte list, byte list) app" where
  "sample_state =
     \<lparr>localStorage =
        [getUserKey sample_user \<mapsto> ''0a0b|a@x.org'',
         getStorageKey sample_user \<mapsto> sample_blob],
      randomSource = [21, 22, 23, 24, 25, 26, 27, 28, 29, 30, 31, 32],
      accounts = [sample_account],
      masterKey = Some (deriveKey toy_webcrypto [0x70, 0x77] [10, 11]),
      currentUser = Some sample_user\<rparr>"

section \<open>Evaluation helpers\<close>

lemma replicate_unfold: "replicate (numeral n) c = c # replicate (pred_numeral n) c"
  by (simp add: numeral_eq_Suc)

section \<open>Base32: what the decoder does without a symbol\<close>

lemma toUpperCase_padding: "toUpperCase (replicate n (CHR ''='')) = replicate n (CHR ''='')"
  by (simp add: toUpperCase_def)

lemma strip_padding_padding: "strip_padding (replicate n (CHR ''='')) = []"
  by (simp add: strip_padding_def)

lemma base32ToBytes_padding: "base32ToBytes (replicate n (CHR ''='')) = Inl TypeError"
  by (simp add: base32ToBytes_def toUpperCase_padding strip_padding_padding match_upto_def)

text \<open>
  C9. A secret that is empty or made of \<^verbatim>\<open>=\<close> only leaves no symbol after the padding
  is stripped: \<^verbatim>\<open>match\<close> returns \<^verbatim>\<open>null\<close>, the decoder neither returns the empty
  byte sequence nor throws its own error for a bad character, it throws a
  \<^verbatim>\<open>TypeError\<close>, and \<^verbatim>\<open>generateHOTP\<close> fails with the same error. The empty string
  is \<open>n = 0\<close>.
\<close>

theorem base32ToBytes_no_symbols:
  "base32ToBytes (replicate n (CHR ''='')) = Inl TypeError \<and>
   generateHOTP (replicate n (CHR ''='')) counter = Inl TypeError"
  by (simp add: base32ToBytes_padding generateHOTP_def)

section \<open>Base32: encoding, then decoding\<close>

text \<open>
  C1. The round trip fails on one byte: the encoder writes the first five bits of
  \<^verbatim>\<open>0xFF\<close> as \<^verbatim>\<open>7\<close> and drops the three bits left over, and the decoder, given
  five bits, returns no byte at all.
\<close>

theorem base32_roundtrip_loses_byte:
  "bytesToBase32 [0xFF] = ''7'' \<and> base32ToBytes (bytesToBase32 [0xFF]) = Inr []"
  by code_simp

section \<open>Renaming a user\<close>

text \<open>
  C10. When a user record is stored under the new email, \<^verbatim>\<open>updateUserEmail\<close> returns
  \<^verbatim>\<open>false\<close> and the storage is the one it was given, entry for entry; and whenever the
  storage it leaves differs from the one it was given, it has returned \<^verbatim>\<open>true\<close>.
\<close>

theorem updateUserEmail_existing:
  "(userExists ls newEmail \<longrightarrow> updateUserEmail J ls oldEmail newEmail = (False, ls)) \<and>
   (snd (updateUserEmail J ls oldEmail newEmail) \<noteq> ls \<longrightarrow>
      fst (updateUserEmail J ls oldEmail newEmail) = True)"
  by (simp add: updateUserEmail_def Let_def)

theorem updateUserEmail_existing_witness:
  "userExists [getUserKey ''b@x.org'' \<mapsto> ''{}''] ''b@x.org'' \<and>
   updateUserEmail \<lparr>stringify_user = salt, parse_user = (\<lambda>t. None),
       stringify_accounts = (\<lambda>a. []), parse_accounts = (\<lambda>t. Inr [])\<rparr>
     [getUserKey ''b@x.org'' \<mapsto> ''{}''] ''a@x.org'' ''b@x.org'' =
     (False, [getUserKey ''b@x.org'' \<mapsto> ''{}''])"
proof -
  have ex: "userExists [getUserKey ''b@x.org'' \<mapsto> ''{}''] ''b@x.org''"
    by (simp add: userExists_def getItem_def)
  from updateUserEmail_existing [of "[getUserKey ''b@x.org'' \<mapsto> ''{}'']" "''b@x.org''"] ex
  show ?thesis by blast
qed

section \<open>HOTP: the generator against RFC 4226\<close>

subsection \<open>The counter buffer and the truncation\<close>

lemma length_sha1_digest: "length (sha1_digest h) = 20"
  by (cases h) (simp add: sha1_digest_def u32_bytes_def)

lemma length_hmac_sha1: "length (hmac_sha1 key msg) = 20"
  by (simp add: hmac_sha1_def sha1_def length_sha1_digest Let_def)

lemma word_of_int_js_rem: "(word_of_int (js_rem c 4294967296) :: 32 word) = word_of_int c"
  by (simp add: js_rem_def word_of_int_eq_iff take_bit_eq_mod mod_minus_eq)

lemma bit_int_div_2_32: "bit (c div 4294967296 :: int) n = bit c (32 + n)"
proof -
  have "c div 4294967296 = drop_bit 32 c" by (simp add: drop_bit_eq_div)
  then show ?thesis by (simp add: bit_drop_bit_eq)
qed

lemma counter_buffer:
  "setUint32 (c div 0x100000000) @ setUint32 (js_rem c 0x100000000) =
   counter_bytes (word_of_int c)"
  apply (simp add: setUint32_def counter_bytes_def word_of_int_js_rem Let_def)
  apply (intro conjI bit_word_eqI)
  apply (auto simp add: bit_simps bit_int_div_2_32 ac_simps)
  done

lemma sint_eq_uint_31:
  fixes w :: "32 word"
  assumes "\<not> bit w 31"
  shows "sint w = uint w"
proof -
  have "\<not> bit (uint w) 31" using assms by (simp add: bit_uint_iff)
  then have "sint w = take_bit 31 (uint w)"
    by (simp add: sint_uint signed_take_bit_eq_if_positive)
  also have "\<dots> = uint w"
  proof (rule bit_eqI)
    fix n
    show "bit (take_bit 31 (uint w)) n = bit (uint w) n"
      using assms by (cases "n = 31") (auto simp add: bit_simps dest: bit_imp_le_length)
  qed
  finally show ?thesis .
qed

lemma ucast_and_mask:
  "(ucast (b :: byte) :: 32 word) AND ucast (m :: byte) = ucast (b AND m)"
  by (rule bit_word_eqI) (auto simp add: bit_simps)

lemma sint_ucast_byte: "sint (ucast (b :: byte) :: 32 word) = int (unat b)"
proof -
  have "\<not> bit (ucast b :: 32 word) 31" by (simp add: bit_word_ucast_iff)
  then have "sint (ucast b :: 32 word) = uint (ucast b :: 32 word)"
    by (rule sint_eq_uint_31)
  also have "\<dots> = uint b" by (simp add: uint_up_ucast is_up)
  finally show ?thesis by simp
qed

lemma ucast_and_0f: "(ucast (b :: byte) :: 32 word) AND 0x0f = ucast (b AND 0x0F)"
  using ucast_and_mask [of b "0x0F"] by simp

lemma ucast_and_7f: "(ucast (b :: byte) :: 32 word) AND 0x7f = ucast (b AND 0x7F)"
  using ucast_and_mask [of b "0x7F"] by simp

lemma ucast_and_ff: "(ucast (b :: byte) :: 32 word) AND 0xff = ucast (b AND 0xFF)"
  using ucast_and_mask [of b "0xFF"] by simp

lemma unat_and_0f: "unat ((b :: byte) AND 0x0F) < 16"
proof -
  have "unat (b AND 0x0F) \<le> unat (0x0F :: byte)"
    by (rule word_and_le1 [THEN word_le_nat_alt [THEN iffD1]])
  then show ?thesis by simp
qed

lemma bit_and_7f: "\<not> bit ((b :: byte) AND 0x7F) 7"
  by (simp add: bit_and_iff)

lemma truncation_positive:
  fixes b0 b1 b2 b3 :: byte
  shows "\<not> bit (push_bit 24 (ucast (b0 AND 0x7F) :: 32 word) OR
            push_bit 16 (ucast b1) OR push_bit 8 (ucast b2) OR ucast b3) 31"
  by (simp add: bit_or_iff bit_push_bit_iff bit_word_ucast_iff bit_and_7f)

lemma element_in_range: "i < length bs \<Longrightarrow> element bs (int i) = Some (bs ! i)"
  by (simp add: element_def)

subsection \<open>Six decimal digits\<close>

lemma dec_digits_zero: "dec_digits k 0 = replicate k (CHR ''0'')"
  by (induction k) (simp_all add: digit_char_def replicate_append_same)

lemma length_toString_radix_pos: "0 < length (toString_radix r n)"
  by (subst toString_radix.simps) simp

lemma padStart_snoc:
  "xs \<noteq> [] \<Longrightarrow> padStart (Suc k) c (xs @ [d]) = padStart k c xs @ [d]"
  by (simp add: padStart_def)

lemma toString_radix_nonempty: "toString_radix r n \<noteq> []"
  using length_toString_radix_pos [of r n] by simp

lemma padStart_decimal:
  "n < 10 ^ Suc k \<Longrightarrow> padStart (Suc k) (CHR ''0'') (toString_radix 10 n) = dec_digits (Suc k) n"
proof (induction k arbitrary: n)
  case 0
  then show ?case
    by (subst toString_radix.simps) (simp add: padStart_def)
next
  case (Suc k)
  show ?case
  proof (cases "n < 10")
    case True
    then show ?thesis
      by (subst toString_radix.simps)
         (simp add: padStart_def dec_digits_zero replicate_append_same)
  next
    case False
    from Suc.prems have small: "n div 10 < 10 ^ Suc k" by (simp add: less_mult_imp_div_less mult.commute)
    have "toString_radix 10 n = toString_radix 10 (n div 10) @ [digit_char (n mod 10)]"
      using False by (subst toString_radix.simps) simp
    then show ?thesis
      using Suc.IH [OF small] toString_radix_nonempty [of 10 "n div 10"]
      by (simp add: padStart_snoc)
  qed
qed

lemma six_digits_dec: "dec_digits 6 n = six_digits n"
proof -
  have "(6::nat) = Suc (Suc (Suc (Suc (Suc (Suc 0)))))" by simp
  then have "dec_digits 6 n = dec_digits (Suc (Suc (Suc (Suc (Suc (Suc 0)))))) n"
    by (simp only:)
  also have "\<dots> = six_digits n"
    by (simp add: six_digits_def div_mult2_eq [symmetric])
  finally show ?thesis .
qed

lemma padStart_six:
  "n < 1000000 \<Longrightarrow> padStart 6 (CHR ''0'') (toString_radix 10 n) = six_digits n"
  using padStart_decimal [of n 5] by (simp add: six_digits_dec)

subsection \<open>The generator computes the reference\<close>

lemma generateHOTP_decoded:
  assumes dec: "base32ToBytes s = Inr key" and ne: "key \<noteq> []"
  shows "generateHOTP s c = Inr (hotp_rfc4226 key (word_of_int c))"
proof -
  define d where "d = hmac_sha1 key (counter_bytes (word_of_int c))"
  define off where "off = unat (d ! 19 AND 0x0F)"
  define v :: "32 word" where
    "v = push_bit 24 (ucast (d ! off AND 0x7F)) OR push_bit 16 (ucast (d ! (off + 1) AND 0xFF)) OR
         push_bit 8 (ucast (d ! (off + 2) AND 0xFF)) OR ucast (d ! (off + 3) AND 0xFF)"
  have len: "length d = 20" by (simp add: d_def length_hmac_sha1)
  have off_lt: "off < 16" by (simp add: off_def unat_and_0f)
  have last: "element d (int (length d) - 1) = Some (d ! 19)"
    using element_in_range [of 19 d] by (simp add: len)
  have off_eq: "sint ((ucast (d ! 19) :: 32 word) AND 0x0f) = int off"
    by (simp add: ucast_and_0f sint_ucast_byte off_def)
  have ik: "importKey_HMAC key = Inr key"
    by (simp add: importKey_HMAC_def ne)
  have toInt32_Some: "toInt32 (Some b) = ucast b" for b
    by (simp add: toInt32_def)
  have el: "element d (int off + int k) = Some (d ! (off + k))" if "k \<le> 3" for k
    using element_in_range [of "off + k" d] off_lt that by (simp add: len)
  have el0: "element d (int off) = Some (d ! off)"
    using el [of 0] by simp
  have el1: "element d (int off + 1) = Some (d ! (off + 1))"
    using el [of 1] by simp
  have el2: "element d (int off + 2) = Some (d ! (off + 2))"
    using el [of 2] by simp
  have el3: "element d (int off + 3) = Some (d ! (off + 3))"
    using el [of 3] by simp
  have pos: "\<not> bit v 31"
    unfolding v_def by (rule truncation_positive)
  have bin: "sint v = uint v"
    by (rule sint_eq_uint_31 [OF pos])
  have trunc: "dynamic_truncation d = unat v"
    by (simp add: dynamic_truncation_def Let_def off_def v_def)
  have otp: "js_rem (uint v) 1000000 = int (unat v mod 1000000)"
    by (simp add: js_rem_def zmod_int)
  have str: "padStart 6 (CHR ''0'') (int_toString (int (unat v mod 1000000))) =
             six_digits (unat v mod 1000000)"
    by (simp add: int_toString_def padStart_six)
  have "generateHOTP s c =
        Inr (padStart 6 (CHR ''0'') (int_toString (js_rem (sint v) 1000000)))"
    unfolding generateHOTP_def Let_def
    by (simp only: dec ik sum.case counter_buffer d_def [symmetric] last toInt32_Some off_eq
        el0 el1 el2 el3 ucast_and_7f ucast_and_ff v_def)
  then show ?thesis
    by (simp only: bin otp str hotp_rfc4226_def d_def [symmetric] trunc)
qed

subsection \<open>Known answers\<close>

text \<open>
  The compression of each 64-byte block of the two HMAC computations below, evaluated once:
  the blocks of the padded key, then the block that ends the inner and the outer hash.
\<close>

lemma key20_ipad:
  "sha1_block (1732584193, 4023233417, 2562383102, 271733878, 3285377520) [7, 4, 5, 2, 3,
    0, 1, 14, 15, 6, 7, 4, 5, 2, 3, 0, 1, 14, 15, 6, 54, 54, 54, 54, 54, 54, 54, 54, 54, 54,
    54, 54, 54, 54, 54, 54, 54, 54, 54, 54, 54, 54, 54, 54, 54, 54, 54, 54, 54, 54, 54, 54,
    54, 54, 54, 54, 54, 54, 54, 54, 54, 54, 54, 54] = (3418885260, 4120502956, 3183003698,
    3667247555, 4167577637)"
  by (simp add: sha1_block_def be32_def schedule.simps rotl32_def sha1_f_def sha1_k_def)

lemma key20_opad:
  "sha1_block (1732584193, 4023233417, 2562383102, 271733878, 3285377520) [109, 110, 111,
    104, 105, 106, 107, 100, 101, 108, 109, 110, 111, 104, 105, 106, 107, 100, 101, 108, 92,
    92, 92, 92, 92, 92, 92, 92, 92, 92, 92, 92, 92, 92, 92, 92, 92, 92, 92, 92, 92, 92, 92,
    92, 92, 92, 92, 92, 92, 92, 92, 92, 92, 92, 92, 92, 92, 92, 92, 92, 92, 92, 92, 92] =
    (2562571725, 1491106814, 2908544490, 985678603, 4262488101)"
  by (simp add: sha1_block_def be32_def schedule.simps rotl32_def sha1_f_def sha1_k_def)

lemma key20_c0_inner:
  "sha1_block (3418885260, 4120502956, 3183003698, 3667247555, 4167577637) [0, 0, 0, 0, 0,
    0, 0, 0, 128, 0, 0, 0, 0, 0, 0, 0, 0, 0, 0, 0, 0, 0, 0, 0, 0, 0, 0, 0, 0, 0, 0, 0, 0, 0,
    0, 0, 0, 0, 0, 0, 0, 0, 0, 0, 0, 0, 0, 0, 0, 0, 0, 0, 0, 0, 0, 0, 0, 0, 0, 0, 0, 0, 2,
    64] = (143776190, 163256007, 3362926067, 1759011664, 1719552414)"
  by (simp add: sha1_block_def be32_def schedule.simps rotl32_def sha1_f_def sha1_k_def)

lemma key20_c0_outer:
  "sha1_block (2562571725, 1491106814, 2908544490, 985678603, 4262488101) [8, 145, 217,
    190, 9, 187, 22, 199, 200, 114, 45, 243, 104, 216, 99, 80, 102, 126, 73, 158, 128, 0, 0,
    0, 0, 0, 0, 0, 0, 0, 0, 0, 0, 0, 0, 0, 0, 0, 0, 0, 0, 0, 0, 0, 0, 0, 0, 0, 0, 0, 0, 0,
    0, 0, 0, 0, 0, 0, 0, 0, 0, 0, 2, 160] = (3432238872, 1351455891, 1281668701, 2343003775,
    3083723952)"
  by (simp add: sha1_block_def be32_def schedule.simps rotl32_def sha1_f_def sha1_k_def)

lemma hmac_key20_c0:
  "hmac_sha1 [49, 50, 51, 52, 53, 54, 55, 56, 57, 48, 49, 50, 51, 52, 53, 54, 55, 56, 57,
    48] [0, 0, 0, 0, 0, 0, 0, 0] = [204, 147, 207, 24, 80, 141, 148, 147, 76, 100, 182, 93,
    139, 167, 102, 127, 183, 205, 228, 176]"
  unfolding hmac_sha1_def Let_def
  by (simp add: sha1_def sha1_pad_def u64_bytes_def u32_bytes_def
      sha1_init_def sha1_digest_def replicate_unfold key20_ipad key20_opad key20_c0_inner key20_c0_outer)

lemma key20_c1_inner:
  "sha1_block (3418885260, 4120502956, 3183003698, 3667247555, 4167577637) [0, 0, 0, 0, 0,
    0, 0, 1, 128, 0, 0, 0, 0, 0, 0, 0, 0, 0, 0, 0, 0, 0, 0, 0, 0, 0, 0, 0, 0, 0, 0, 0, 0, 0,
    0, 0, 0, 0, 0, 0, 0, 0, 0, 0, 0, 0, 0, 0, 0, 0, 0, 0, 0, 0, 0, 0, 0, 0, 0, 0, 0, 0, 2,
    64] = (2923006674, 3845772892, 1570953884, 2321626177, 2537110156)"
  by (simp add: sha1_block_def be32_def schedule.simps rotl32_def sha1_f_def sha1_k_def)

lemma key20_c1_outer:
  "sha1_block (2562571725, 1491106814, 2908544490, 985678603, 4262488101) [174, 57, 138,
    210, 229, 57, 214, 92, 93, 162, 218, 156, 138, 97, 52, 65, 151, 57, 58, 140, 128, 0, 0,
    0, 0, 0, 0, 0, 0, 0, 0, 0, 0, 0, 0, 0, 0, 0, 0, 0, 0, 0, 0, 0, 0, 0, 0, 0, 0, 0, 0, 0,
    0, 0, 0, 0, 0, 0, 0, 0, 0, 0, 2, 160] = (1973717529, 3570131200, 1682868929, 964618868,
    2049782699)"
  by (simp add: sha1_block_def be32_def schedule.simps rotl32_def sha1_f_def sha1_k_def)

lemma hmac_key20_c1:
  "hmac_sha1 [49, 50, 51, 52, 53, 54, 55, 56, 57, 48, 49, 50, 51, 52, 53, 54, 55, 56, 57,
    48] [0, 0, 0, 0, 0, 0, 0, 1] = [117, 164, 138, 25, 212, 203, 225, 0, 100, 78, 138, 193,
    57, 126, 234, 116, 122, 45, 51, 171]"
  unfolding hmac_sha1_def Let_def
  by (simp add: sha1_def sha1_pad_def u64_bytes_def u32_bytes_def
      sha1_init_def sha1_digest_def replicate_unfold key20_ipad key20_opad key20_c1_inner key20_c1_outer)

lemma key10_ipad:
  "sha1_block (1732584193, 4023233417, 2562383102, 271733878, 3285377520) [7, 4, 5, 2, 3,
    0, 1, 14, 15, 6, 54, 54, 54, 54, 54, 54, 54, 54, 54, 54, 54, 54, 54, 54, 54, 54, 54, 54,
    54, 54, 54, 54, 54, 54, 54, 54, 54, 54, 54, 54, 54, 54, 54, 54, 54, 54, 54, 54, 54, 54,
    54, 54, 54, 54, 54, 54, 54, 54, 54, 54, 54, 54, 54, 54] = (2975771084, 3422477704,
    3783581688, 2533482318, 2097845533)"
  by (simp add: sha1_block_def be32_def schedule.simps rotl32_def sha1_f_def sha1_k_def)

lemma key10_opad:
  "sha1_block (1732584193, 4023233417, 2562383102, 271733878, 3285377520) [109, 110, 111,
    104, 105, 106, 107, 100, 101, 108, 92, 92, 92, 92, 92, 92, 92, 92, 92, 92, 92, 92, 92,
    92, 92, 92, 92, 92, 92, 92, 92, 92, 92, 92, 92, 92, 92, 92, 92, 92, 92, 92, 92, 92, 92,
    92, 92, 92, 92, 92, 92, 92, 92, 92, 92, 92, 92, 92, 92, 92, 92, 92, 92, 92] =
    (3882633190, 1731150995, 3175487087, 2567362288, 2713891023)"
  by (simp add: sha1_block_def be32_def schedule.simps rotl32_def sha1_f_def sha1_k_def)

lemma key10_c0_inner:
  "sha1_block (2975771084, 3422477704, 3783581688, 2533482318, 2097845533) [0, 0, 0, 0, 0,
    0, 0, 0, 128, 0, 0, 0, 0, 0, 0, 0, 0, 0, 0, 0, 0, 0, 0, 0, 0, 0, 0, 0, 0, 0, 0, 0, 0, 0,
    0, 0, 0, 0, 0, 0, 0, 0, 0, 0, 0, 0, 0, 0, 0, 0, 0, 0, 0, 0, 0, 0, 0, 0, 0, 0, 0, 0, 2,
    64] = (1701086507, 4164066440, 3638299463, 3941362704, 4163079551)"
  by (simp add: sha1_block_def be32_def schedule.simps rotl32_def sha1_f_def sha1_k_def)

lemma key10_c0_outer:
  "sha1_block (3882633190, 1731150995, 3175487087, 2567362288, 2713891023) [101, 100, 133,
    43, 248, 50, 156, 136, 216, 220, 11, 71, 234, 236, 108, 16, 248, 35, 141, 127, 128, 0,
    0, 0, 0, 0, 0, 0, 0, 0, 0, 0, 0, 0, 0, 0, 0, 0, 0, 0, 0, 0, 0, 0, 0, 0, 0, 0, 0, 0, 0,
    0, 0, 0, 0, 0, 0, 0, 0, 0, 0, 0, 2, 160] = (535289374, 3936888645, 3806470605,
    3807466528, 3414749542)"
  by (simp add: sha1_block_def be32_def schedule.simps rotl32_def sha1_f_def sha1_k_def)

lemma hmac_key10_c0:
  "hmac_sha1 [49, 50, 51, 52, 53, 54, 55, 56, 57, 48] [0, 0, 0, 0, 0, 0, 0, 0] = [31, 231,
    222, 30, 234, 168, 39, 69, 226, 226, 33, 205, 226, 241, 84, 32, 203, 136, 241, 102]"
  unfolding hmac_sha1_def Let_def
  by (simp add: sha1_def sha1_pad_def u64_bytes_def u32_bytes_def
      sha1_init_def sha1_digest_def replicate_unfold key10_ipad key10_opad key10_c0_inner key10_c0_outer)


lemma base32ToBytes_rfc_secret:
  "base32ToBytes ''GEZDGNBVGY3TQOJQGEZDGNBVGY3TQOJQ'' =
   Inr [49, 50, 51, 52, 53, 54, 55, 56, 57, 48, 49, 50, 51, 52, 53, 54, 55, 56, 57, 48]"
  by code_simp

lemma base32ToBytes_spec_secret:
  "base32ToBytes ''GEZDGNBVGY3TQOJQ'' = Inr [49, 50, 51, 52, 53, 54, 55, 56, 57, 48]"
  by code_simp

lemmas hotp_eval = hotp_rfc4226_def counter_bytes_def dynamic_truncation_def Let_def

lemma hotp_key20_c0:
  "hotp_rfc4226 [49, 50, 51, 52, 53, 54, 55, 56, 57, 48, 49, 50, 51, 52, 53, 54, 55, 56, 57, 48]
     (word_of_int 0) = ''755224''"
  unfolding hotp_eval
  by (simp add: hmac_key20_c0 six_digits_def digit_char_def)

lemma hotp_key20_c1:
  "hotp_rfc4226 [49, 50, 51, 52, 53, 54, 55, 56, 57, 48, 49, 50, 51, 52, 53, 54, 55, 56, 57, 48]
     (word_of_int 1) = ''287082''"
  unfolding hotp_eval
  by (simp add: hmac_key20_c1 six_digits_def digit_char_def)

lemma hotp_key10_c0:
  "hotp_rfc4226 [49, 50, 51, 52, 53, 54, 55, 56, 57, 48] (word_of_int 0) = ''891490''"
  unfolding hotp_eval
  by (simp add: hmac_key10_c0 six_digits_def digit_char_def)

text \<open>
  C2, as the code has it. For every secret that decodes to a non-empty key and every
  integer counter, \<^verbatim>\<open>generateHOTP\<close> returns the RFC 4226 code of the key and of the
  counter taken as a 64-bit value (a counter from 0 to \<open>2^64 - 1\<close> is that value
  itself): eight big-endian counter bytes, HMAC-SHA1, the offset in the last byte's low
  four bits, the 31-bit truncation, the remainder modulo one million in six digits. The
  RFC's vectors are those of the Base32 text of the twenty bytes
  \<^verbatim>\<open>12345678901234567890\<close>, which is \<^verbatim>\<open>GEZDGNBVGY3TQOJQGEZDGNBVGY3TQOJQ\<close>: counter
  0 gives \<^verbatim>\<open>755224\<close> and counter 1 gives \<^verbatim>\<open>287082\<close>.
\<close>

theorem generateHOTP_rfc4226:
  "(base32ToBytes s = Inr key \<and> key \<noteq> [] \<longrightarrow>
      generateHOTP s c = Inr (hotp_rfc4226 key (word_of_int c))) \<and>
   generateHOTP ''GEZDGNBVGY3TQOJQGEZDGNBVGY3TQOJQ'' 0 = Inr ''755224'' \<and>
   generateHOTP ''GEZDGNBVGY3TQOJQGEZDGNBVGY3TQOJQ'' 1 = Inr ''287082''"
proof (intro conjI impI)
  assume "base32ToBytes s = Inr key \<and> key \<noteq> []"
  then show "generateHOTP s c = Inr (hotp_rfc4226 key (word_of_int c))"
    by (simp add: generateHOTP_decoded)
next
  show "generateHOTP ''GEZDGNBVGY3TQOJQGEZDGNBVGY3TQOJQ'' 0 = Inr ''755224''"
    using generateHOTP_decoded [OF base32ToBytes_rfc_secret, of 0] hotp_key20_c0 by simp
next
  show "generateHOTP ''GEZDGNBVGY3TQOJQGEZDGNBVGY3TQOJQ'' 1 = Inr ''287082''"
    using generateHOTP_decoded [OF base32ToBytes_rfc_secret, of 1] hotp_key20_c1 by simp
qed

theorem generateHOTP_rfc4226_witness:
  "base32ToBytes ''GEZDGNBVGY3TQOJQGEZDGNBVGY3TQOJQ'' =
     Inr [49, 50, 51, 52, 53, 54, 55, 56, 57, 48, 49, 50, 51, 52, 53, 54, 55, 56, 57, 48] \<and>
   generateHOTP ''GEZDGNBVGY3TQOJQGEZDGNBVGY3TQOJQ'' 9 =
     Inr (hotp_rfc4226
            [49, 50, 51, 52, 53, 54, 55, 56, 57, 48, 49, 50, 51, 52, 53, 54, 55, 56, 57, 48]
            (word_of_int 9))"
  using generateHOTP_rfc4226 [of "''GEZDGNBVGY3TQOJQGEZDGNBVGY3TQOJQ''"
      "[49, 50, 51, 52, 53, 54, 55, 56, 57, 48, 49, 50, 51, 52, 53, 54, 55, 56, 57, 48]" 9]
    base32ToBytes_rfc_secret
  by simp

text \<open>
  C2, as the claim states it, fails: \<^verbatim>\<open>GEZDGNBVGY3TQOJQ\<close> is the Base32 text of the ten
  bytes \<^verbatim>\<open>1234567890\<close> only, and its code at counter 0 is \<^verbatim>\<open>891490\<close>.
\<close>

theorem generateHOTP_spec_secret:
  "generateHOTP ''GEZDGNBVGY3TQOJQ'' 0 = Inr ''891490'' \<and>
   generateHOTP ''GEZDGNBVGY3TQOJQ'' 0 \<noteq> Inr ''755224''"
  using generateHOTP_decoded [OF base32ToBytes_spec_secret, of 0] hotp_key10_c0 by simp

section \<open>Enrollment: the window of accepted codes\<close>

lemma totp_counter_div: "totp_counter now = now div 1000 div 30"
proof -
  have "(of_int now :: real) / 1000 / 30 = of_int now / of_int 30000" by simp
  then have "totp_counter now = now div 30000"
    unfolding totp_counter_def by (simp only: floor_divide_of_int_eq)
  also have "\<dots> = now div 1000 div 30"
    using zdiv_zmult2_eq [of 30 now 1000] by simp
  finally show ?thesis .
qed

lemma generateHOTP_succeeds_uniformly:
  assumes "generateHOTP s c = Inr x"
  shows "\<exists>y. generateHOTP s c' = Inr y"
proof (cases "base32ToBytes s")
  case (Inl e)
  with assms show ?thesis by (simp add: generateHOTP_def)
next
  case (Inr key)
  show ?thesis
  proof (cases "key = []")
    case True
    with Inr assms show ?thesis by (simp add: generateHOTP_def importKey_HMAC_def)
  next
    case False
    with Inr show ?thesis by (simp add: generateHOTP_decoded)
  qed
qed

text \<open>
  C8. With the counter of the current 30-second period, which is the whole number of
  seconds since the epoch divided by 30, the account is added exactly when the submitted
  code is the HOTP code of the account's secret at the counter before, at the counter or
  at the counter after; with any other code it is not added.
\<close>

theorem handleVerificationSubmit_window:
  "totp_counter now = now div 1000 div 30 \<and>
   (handleVerificationSubmit (Some account) code now = Added account) =
   (generateHOTP (secret account) (totp_counter now - 1) = Inr code \<or>
    generateHOTP (secret account) (totp_counter now) = Inr code \<or>
    generateHOTP (secret account) (totp_counter now + 1) = Inr code)"
proof -
  define c where "c = totp_counter now"
  define s where "s = secret account"
  consider (ok) a b d where "generateHOTP s (c - 1) = Inr a" "generateHOTP s c = Inr b"
      "generateHOTP s (c + 1) = Inr d"
    | (fail) "\<forall>c'. \<exists>e. generateHOTP s c' = Inl e"
  proof (cases "generateHOTP s c")
    case (Inl e)
    have "\<exists>e. generateHOTP s c' = Inl e" for c'
    proof (cases "generateHOTP s c'")
      case (Inr y)
      from generateHOTP_succeeds_uniformly [OF Inr, of c] Inl show ?thesis by simp
    qed simp
    then show ?thesis using fail by blast
  next
    case (Inr b)
    from generateHOTP_succeeds_uniformly [OF Inr] obtain a d
      where "generateHOTP s (c - 1) = Inr a" "generateHOTP s (c + 1) = Inr d" by blast
    with Inr show ?thesis using ok by blast
  qed
  then have "(handleVerificationSubmit (Some account) code now = Added account) =
    (generateHOTP s (c - 1) = Inr code \<or> generateHOTP s c = Inr code \<or>
     generateHOTP s (c + 1) = Inr code)"
  proof cases
    case ok
    then show ?thesis
      by (auto simp add: handleVerificationSubmit_def Let_def c_def [symmetric] s_def [symmetric])
  next
    case fail
    then obtain e where "generateHOTP s (c - 1) = Inl e" by blast
    moreover from fail have "generateHOTP s c' \<noteq> Inr code" for c'
      by (metis Inl_Inr_False)
    ultimately show ?thesis
      by (simp add: handleVerificationSubmit_def Let_def c_def [symmetric] s_def [symmetric])
  qed
  then show ?thesis by (simp add: totp_counter_div c_def s_def)
qed

section \<open>The envelope\<close>

subsection \<open>Hexadecimal text and back\<close>

lemma nibble_cases:
  "d < 16 \<Longrightarrow> d = 0 \<or> d = 1 \<or> d = 2 \<or> d = 3 \<or> d = 4 \<or> d = 5 \<or> d = 6 \<or> d = 7 \<or>
     d = 8 \<or> d = 9 \<or> d = 10 \<or> d = 11 \<or> d = 12 \<or> d = 13 \<or> d = 14 \<or> d = (15::nat)"
  by arith

lemma hex_digit_char:
  assumes "d < 16"
  shows "digit_value (digit_char d) = Some d"
    and "\<not> is_line_terminator (digit_char d)"
    and "\<not> is_white_space (digit_char d)"
    and "digit_char d \<noteq> CHR '':''" and "digit_char d \<noteq> CHR ''+''"
    and "digit_char d \<noteq> CHR ''-''" and "digit_char d \<noteq> CHR ''x''"
    and "digit_char d \<noteq> CHR ''X''"
  using nibble_cases [OF assms]
  by (auto simp add: digit_char_def digit_value_def is_line_terminator_def is_white_space_def)

lemma toString_radix_16_byte:
  "n < 256 \<Longrightarrow> padStart 2 (CHR ''0'') (toString_radix 16 n) =
     [digit_char (n div 16), digit_char (n mod 16)]"
proof (cases "n < 16")
  case True
  then show ?thesis
    by (subst toString_radix.simps) (simp add: padStart_def digit_char_def)
next
  case False
  assume "n < 256"
  then have "n div 16 < 16" by simp
  then have "toString_radix 16 (n div 16) = [digit_char (n div 16)]"
    by (subst toString_radix.simps) simp
  with False show ?thesis
    by (subst toString_radix.simps) (simp add: padStart_def)
qed

lemma hex_byte_digits:
  "hex_byte b = [digit_char (unat b div 16), digit_char (unat b mod 16)]"
proof -
  have "unat b < 256" using unsigned_less [of b, where 'a = nat] by simp
  then show ?thesis by (simp add: hex_byte_def toString_radix_16_byte)
qed

lemma unat_byte_nibbles: "unat (b :: byte) div 16 < 16" "unat b mod 16 < 16"
  using unsigned_less [of b, where 'a = nat] by simp_all

lemma parseInt_hex_byte: "parseInt (hex_byte b) 16 = Some (int (unat b))"
  using unat_byte_nibbles [of b]
  by (simp add: hex_byte_digits parseInt_def hex_digit_char strip_hex_prefix_def)

lemma toUint8_hex_byte: "toUint8 (parseInt (hex_byte b) 16) = b"
  by (simp add: parseInt_hex_byte toUint8_def)

lemma match_pieces_hex:
  "match_pieces 2 [] (toHex bs) = map hex_byte bs"
  using unat_byte_nibbles
  by (induction bs) (simp_all add: toHex_def hex_byte_digits hex_digit_char)

lemma toHex_empty: "(toHex bs = []) = (bs = [])"
  by (cases bs) (simp_all add: toHex_def hex_byte_digits)

lemma fromHex_toHex: "bs \<noteq> [] \<Longrightarrow> fromHex (toHex bs) = Inr bs"
  by (cases bs) (simp_all add: fromHex_def match_upto_def match_pieces_hex toUint8_hex_byte
      map_idI)

lemma toHex_inject: "toHex a = toHex b \<Longrightarrow> a = b"
proof (cases "a = []")
  case True
  assume "toHex a = toHex b"
  with True have "toHex b = []" by (simp add: toHex_def)
  with True show ?thesis by (simp add: toHex_empty)
next
  case False
  assume eq: "toHex a = toHex b"
  from False have "toHex a \<noteq> []" by (simp add: toHex_empty)
  with eq have nb: "b \<noteq> []" by (simp add: toHex_empty)
  have "Inr a = fromHex (toHex a)" using False by (simp add: fromHex_toHex)
  also have "\<dots> = fromHex (toHex b)" by (simp only: eq)
  also have "\<dots> = Inr b" using nb by (simp add: fromHex_toHex)
  finally show ?thesis by simp
qed

lemma colon_notin_hex_byte: "CHR '':'' \<notin> set (hex_byte b)"
  using unat_byte_nibbles [of b] hex_digit_char(4) [of "unat b div 16"]
    hex_digit_char(4) [of "unat b mod 16"]
  by (simp add: hex_byte_digits)

lemma colon_notin_toHex: "CHR '':'' \<notin> set (toHex bs)"
  by (simp add: toHex_def colon_notin_hex_byte)

subsection \<open>Splitting the envelope\<close>

lemma split_on_unfold:
  "split_on c s =
     takeWhile (\<lambda>x. x \<noteq> c) s #
       (case dropWhile (\<lambda>x. x \<noteq> c) s of [] \<Rightarrow> [] | x # rest \<Rightarrow> split_on c rest)"
  by (induction s) (auto split: list.splits)

lemma split_on_no_separator: "c \<notin> set s \<Longrightarrow> split_on c s = [s]"
  by (induction s) auto

lemma split_on_append:
  "c \<notin> set a \<Longrightarrow> split_on c (a @ c # b) = a # split_on c b"
  by (induction a) auto

lemma split_envelope:
  "split_on (CHR '':'') (toHex iv @ '':'' @ toHex ct) = [toHex iv, toHex ct]"
  by (simp add: split_on_append split_on_no_separator colon_notin_toHex)

lemma item_0_split: "item (split_on (CHR '':'') s) 0 = Some (iv_field s)"
  by (subst split_on_unfold) (simp add: item_def iv_field_def)

lemma item_1_split:
  "item (split_on (CHR '':'') s) (Suc 0) =
     (if CHR '':'' \<in> set s then Some (ciphertext_field s) else None)"
proof (cases "dropWhile (\<lambda>x. x \<noteq> CHR '':'') s")
  case Nil
  then have "CHR '':'' \<notin> set s" by (auto simp add: dropWhile_eq_Nil_conv)
  then show ?thesis by (simp add: split_on_no_separator item_def)
next
  case (Cons x rest)
  then have "dropWhile (\<lambda>x. x \<noteq> CHR '':'') s \<noteq> []" by simp
  then have "CHR '':'' \<in> set s" by (auto simp add: dropWhile_eq_Nil_conv)
  moreover have "split_on (CHR '':'') s = iv_field s # split_on (CHR '':'') rest"
    by (subst split_on_unfold) (simp add: Cons iv_field_def)
  moreover obtain ps where "split_on (CHR '':'') rest = ciphertext_field s # ps"
    using split_on_unfold [of "CHR '':''" rest] by (simp add: ciphertext_field_def Cons)
  ultimately show ?thesis by (simp add: item_def)
qed

lemma decrypt_fields:
  "CHR '':'' \<in> set s \<Longrightarrow> iv_field s \<noteq> [] \<Longrightarrow> ciphertext_field s \<noteq> [] \<Longrightarrow>
   decrypt W s key =
     (case fromHex (iv_field s) of
        Inl e \<Rightarrow> Inl e
      | Inr iv \<Rightarrow>
          (case fromHex (ciphertext_field s) of
             Inl e \<Rightarrow> Inl e
           | Inr encryptedData \<Rightarrow>
               (case decrypt_AES_GCM W key iv encryptedData of
                  Inl e \<Rightarrow> Inl e
                | Inr decryptedData \<Rightarrow> Inr (TextDecoder_decode decryptedData))))"
  by (simp add: decrypt_def Let_def item_0_split item_1_split truthy_def split: sum.splits)

lemma fromHex_zz: "fromHex ''zz'' = Inr [0]"
  by (simp add: fromHex_def match_upto_def is_line_terminator_def parseInt_def
      is_white_space_def strip_hex_prefix_def digit_value_def toUint8_def)

text \<open>
  C4, as the code has it. An input without a \<^verbatim>\<open>:\<close>, or with an empty IV field or an
  empty ciphertext field, fails with the error of the format check, whatever the platform's
  AES-GCM would do: it is not called.
\<close>

theorem decrypt_malformed:
  "CHR '':'' \<notin> set s \<or> iv_field s = [] \<or> ciphertext_field s = [] \<Longrightarrow>
   decrypt W s key = Inl (Error ''Invalid encrypted data format'')"
  by (auto simp add: decrypt_def Let_def item_0_split item_1_split truthy_def)

theorem decrypt_malformed_witness:
  "CHR '':'' \<notin> set ''0a0b0c'' \<and>
   decrypt toy_webcrypto ''0a0b0c'' [1, 2] = Inl (Error ''Invalid encrypted data format'')"
  using decrypt_malformed [of "''0a0b0c''" toy_webcrypto "[1, 2]"] by simp

text \<open>
  C4, as the claim states it, fails for a field that is not hexadecimal: the code does not
  check the characters. \<^verbatim>\<open>parseInt\<close> makes a zero byte of \<^verbatim>\<open>zz\<close>, AES-GCM decryption
  is called with it, and the failure is the cipher's.
\<close>

theorem decrypt_not_hex:
  "decrypt toy_webcrypto ''zz:zz'' [1, 2] = Inl OperationError \<and>
   decrypt toy_webcrypto ''zz:zz'' [1, 2] \<noteq> Inl (Error ''Invalid encrypted data format'')"
  by (simp add: decrypt_def Let_def item_def truthy_def fromHex_zz toy_webcrypto_def
      toy_decrypt_def)

subsection \<open>The IV of an envelope\<close>

lemma iv_field_envelope: "iv_field (toHex iv @ '':'' @ rest) = toHex iv"
  using colon_notin_toHex [of iv] by (simp add: iv_field_def takeWhile_append)

lemmas toy_eval = toy_webcrypto_def toy_encrypt_def toy_decrypt_def toy_tag_def

lemma encrypt_envelope:
  "fst (encrypt W r m key) =
     toHex (fst (getRandomValues W r 12)) @ '':'' @
     toHex (encrypt_AES_GCM W key (fst (getRandomValues W r 12)) (TextEncoder_encode m))"
  by (simp add: encrypt_def Let_def split: prod.splits)

lemma ciphertext_field_envelope:
  "ciphertext_field (toHex iv @ '':'' @ toHex ct) = toHex ct"
proof -
  have "dropWhile (\<lambda>x. x \<noteq> CHR '':'') (toHex iv @ '':'' @ toHex ct) = '':'' @ toHex ct"
    using colon_notin_toHex [of iv] by (simp add: dropWhile_append)
  moreover have "takeWhile (\<lambda>x. x \<noteq> CHR '':'') (toHex ct) = toHex ct"
    using colon_notin_toHex [of ct] by (auto simp add: takeWhile_eq_all_conv)
  ultimately show ?thesis by (simp add: ciphertext_field_def)
qed

text \<open>
  C5. \<^verbatim>\<open>encrypt\<close> takes no IV from its caller and reads none from storage. The 12
  bytes that this call draws from the random source are the IV: they are the IV under
  which AES-GCM encrypts the plaintext, and the envelope is their hexadecimal text, a
  \<^verbatim>\<open>:\<close> and the hexadecimal text of that ciphertext, so the IV field holds the drawn
  bytes and the ciphertext field the data encrypted under them. The random source is left
  in the state after the draw. Two calls whose draws differ give different envelopes,
  whatever the key and the plaintext.
\<close>

theorem encrypt_fresh_iv:
  "fst (encrypt W rng data key) =
     toHex (fst (getRandomValues W rng 12)) @ '':'' @
     toHex (encrypt_AES_GCM W key (fst (getRandomValues W rng 12)) (TextEncoder_encode data)) \<and>
   iv_field (fst (encrypt W rng data key)) = toHex (fst (getRandomValues W rng 12)) \<and>
   ciphertext_field (fst (encrypt W rng data key)) =
     toHex (encrypt_AES_GCM W key (fst (getRandomValues W rng 12)) (TextEncoder_encode data)) \<and>
   snd (encrypt W rng data key) = snd (getRandomValues W rng 12) \<and>
   (fst (getRandomValues W r1 12) \<noteq> fst (getRandomValues W r2 12) \<longrightarrow>
      fst (encrypt W r1 data key) \<noteq> fst (encrypt W r2 data key))"
proof (intro conjI impI)
  show "fst (encrypt W rng data key) =
     toHex (fst (getRandomValues W rng 12)) @ '':'' @
     toHex (encrypt_AES_GCM W key (fst (getRandomValues W rng 12)) (TextEncoder_encode data))"
    by (rule encrypt_envelope)
  show "iv_field (fst (encrypt W rng data key)) = toHex (fst (getRandomValues W rng 12))"
    by (simp only: encrypt_envelope iv_field_envelope)
  show "ciphertext_field (fst (encrypt W rng data key)) =
     toHex (encrypt_AES_GCM W key (fst (getRandomValues W rng 12)) (TextEncoder_encode data))"
    by (simp only: encrypt_envelope ciphertext_field_envelope)
  show "snd (encrypt W rng data key) = snd (getRandomValues W rng 12)"
    by (simp add: encrypt_def Let_def split: prod.splits)
next
  assume ne: "fst (getRandomValues W r1 12) \<noteq> fst (getRandomValues W r2 12)"
  show "fst (encrypt W r1 data key) \<noteq> fst (encrypt W r2 data key)"
  proof
    assume "fst (encrypt W r1 data key) = fst (encrypt W r2 data key)"
    then have "iv_field (fst (encrypt W r1 data key)) = iv_field (fst (encrypt W r2 data key))"
      by simp
    then have "toHex (fst (getRandomValues W r1 12)) = toHex (fst (getRandomValues W r2 12))"
      by (simp only: encrypt_envelope iv_field_envelope)
    with ne show False by (simp add: toHex_inject)
  qed
qed

theorem encrypt_fresh_iv_witness:
  "fst (getRandomValues toy_webcrypto [1, 2, 3, 4, 5, 6, 7, 8, 9, 10, 11, 12] 12) \<noteq>
   fst (getRandomValues toy_webcrypto [2, 3, 4, 5, 6, 7, 8, 9, 10, 11, 12, 13] 12) \<and>
   fst (encrypt toy_webcrypto [1, 2, 3, 4, 5, 6, 7, 8, 9, 10, 11, 12] [0x5B, 0x5D] [1, 2]) \<noteq>
   fst (encrypt toy_webcrypto [2, 3, 4, 5, 6, 7, 8, 9, 10, 11, 12, 13] [0x5B, 0x5D] [1, 2])"
proof -
  have ne: "fst (getRandomValues toy_webcrypto [1, 2, 3, 4, 5, 6, 7, 8, 9, 10, 11, 12] 12) \<noteq>
    fst (getRandomValues toy_webcrypto [2, 3, 4, 5, 6, 7, 8, 9, 10, 11, 12, 13] 12)"
    by (simp add: toy_webcrypto_def)
  with encrypt_fresh_iv [where W = toy_webcrypto and ?r1.0 = "[1, 2, 3, 4, 5, 6, 7, 8, 9, 10, 11, 12]"
      and ?r2.0 = "[2, 3, 4, 5, 6, 7, 8, 9, 10, 11, 12, 13]"]
  show ?thesis by blast
qed

subsection \<open>Encrypting, then decrypting\<close>

lemma toy_webcrypto_contract: "webcrypto_contract toy_webcrypto"
  by (auto simp add: webcrypto_contract_def toy_eval)

text \<open>
  C3, as the code has it. On a platform that keeps the contract of the Web Cryptography
  API, and for a plaintext that the text codec returns unchanged, decrypting the envelope of
  \<^verbatim>\<open>encrypt\<close> under the same derived key returns the plaintext. The derived key is a
  function of the password and the salt.
\<close>

theorem encrypt_decrypt_roundtrip:
  assumes "webcrypto_contract W"
    and "TextDecoder_decode (TextEncoder_encode m) = m"
  shows "decrypt W (fst (encrypt W rng m (deriveKey W p salt_bytes))) (deriveKey W p salt_bytes) =
         Inr m"
proof -
  define key where "key = deriveKey W p salt_bytes"
  define iv where "iv = fst (getRandomValues W rng 12)"
  define ct where "ct = encrypt_AES_GCM W key iv (TextEncoder_encode m)"
  from assms(1) have "length iv = 12" "length ct = length (TextEncoder_encode m) + 16"
    and dec: "decrypt_AES_GCM W key iv ct = Inr (TextEncoder_encode m)"
    by (simp_all add: webcrypto_contract_def iv_def ct_def)
  then have iv_ne: "iv \<noteq> []" and ct_ne: "ct \<noteq> []" by auto
  have env: "fst (encrypt W rng m key) = toHex iv @ '':'' @ toHex ct"
    by (simp add: encrypt_def Let_def iv_def ct_def split: prod.splits)
  have "decrypt W (toHex iv @ '':'' @ toHex ct) key = Inr m"
    unfolding decrypt_def Let_def split_envelope
    by (simp add: item_def truthy_def toHex_empty iv_ne ct_ne fromHex_toHex dec assms(2))
  then have "decrypt W (fst (encrypt W rng m key)) key = Inr m" by (simp only: env)
  then show ?thesis by (simp only: key_def)
qed

theorem encrypt_decrypt_roundtrip_witness:
  "webcrypto_contract toy_webcrypto \<and>
   TextDecoder_decode (TextEncoder_encode [0x5B, 0xE9, 0x5D]) = [0x5B, 0xE9, 0x5D] \<and>
   decrypt toy_webcrypto
     (fst (encrypt toy_webcrypto [1, 2, 3, 4, 5, 6, 7, 8, 9, 10, 11, 12] [0x5B, 0xE9, 0x5D]
             (deriveKey toy_webcrypto [0x70, 0x77] [7, 7])))
     (deriveKey toy_webcrypto [0x70, 0x77] [7, 7]) = Inr [0x5B, 0xE9, 0x5D]"
proof -
  have codec: "TextDecoder_decode (TextEncoder_encode [0x5B, 0xE9, 0x5D]) = [0x5B, 0xE9, 0x5D]"
    by (simp add: TextDecoder_decode_def TextEncoder_encode_def is_high_surrogate_def
        is_low_surrogate_def utf8_bytes_def strip_bom_def utf16_units_def utf8_decode.simps)
  from encrypt_decrypt_roundtrip [OF toy_webcrypto_contract codec] toy_webcrypto_contract codec
  show ?thesis by simp
qed

text \<open>
  C3, as the claim states it, fails for a plaintext that starts with U+FEFF: the encoder
  writes it as the bytes EF BB BF, and the decoder takes these for a byte order mark and
  drops them.
\<close>

theorem encrypt_decrypt_bom:
  "decrypt toy_webcrypto
     (fst (encrypt toy_webcrypto [1, 2, 3, 4, 5, 6, 7, 8, 9, 10, 11, 12] [0xFEFF, 0x5B, 0x5D]
             (deriveKey toy_webcrypto [0x70, 0x77] [7, 7])))
     (deriveKey toy_webcrypto [0x70, 0x77] [7, 7]) = Inr [0x5B, 0x5D]"
proof -
  have enc: "TextEncoder_encode [0xFEFF, 0x5B, 0x5D] = [0xEF, 0xBB, 0xBF, 0x5B, 0x5D]"
    by (simp add: TextEncoder_encode_def is_high_surrogate_def is_low_surrogate_def
        utf8_bytes_def)
  have dec: "TextDecoder_decode [0xEF, 0xBB, 0xBF, 0x5B, 0x5D] = [0x5B, 0x5D]"
    by (simp add: TextDecoder_decode_def strip_bom_def utf16_units_def utf8_decode.simps)
  have key: "deriveKey toy_webcrypto [0x70, 0x77] [7, 7] = [0x70, 0x77, 7, 7]"
    by (simp add: deriveKey_def toy_webcrypto_def TextEncoder_encode_def is_high_surrogate_def
        is_low_surrogate_def utf8_bytes_def)
  have env: "fst (encrypt toy_webcrypto [1, 2, 3, 4, 5, 6, 7, 8, 9, 10, 11, 12]
                [0xFEFF, 0x5B, 0x5D] [0x70, 0x77, 7, 7]) =
             toHex [1, 2, 3, 4, 5, 6, 7, 8, 9, 10, 11, 12] @ '':'' @
             toHex (toy_encrypt [0x70, 0x77, 7, 7] [1, 2, 3, 4, 5, 6, 7, 8, 9, 10, 11, 12]
                      [0xEF, 0xBB, 0xBF, 0x5B, 0x5D])"
    by (simp add: encrypt_def Let_def toy_webcrypto_def enc)
  have "decrypt toy_webcrypto
          (toHex [1, 2, 3, 4, 5, 6, 7, 8, 9, 10, 11, 12] @ '':'' @
           toHex (toy_encrypt [0x70, 0x77, 7, 7] [1, 2, 3, 4, 5, 6, 7, 8, 9, 10, 11, 12]
                    [0xEF, 0xBB, 0xBF, 0x5B, 0x5D])) [0x70, 0x77, 7, 7] = Inr [0x5B, 0x5D]"
    unfolding decrypt_def Let_def split_envelope
    by (simp add: item_def truthy_def toHex_empty fromHex_toHex dec toy_eval)
  then show ?thesis by (simp only: key env)
qed

section \<open>Changing the password\<close>

lemma storage_keys_differ: "getStorageKey a \<noteq> getUserKey b"
  by (simp add: getStorageKey_def getUserKey_def)

lemma saveAccounts_storage:
  "saveAccounts W J (ls, r) accs key e =
     ((ls(getStorageKey e \<mapsto> fst (encrypt W r (stringify_accounts J accs) key))),
      snd (encrypt W r (stringify_accounts J accs) key))"
  by (simp add: saveAccounts_def Let_def setItem_def split: prod.splits)

lemma handleChangePassword_failure:
  "fst (handleChangePassword W J st cur new) = Inl e \<Longrightarrow>
   snd (handleChangePassword W J st cur new) = st"
  by (auto simp add: handleChangePassword_def Let_def split: option.splits sum.splits prod.splits
      if_splits)

lemma decrypt_envelope:
  "iv \<noteq> [] \<Longrightarrow> ct \<noteq> [] \<Longrightarrow>
   decrypt W (toHex iv @ '':'' @ toHex ct) key =
     (case decrypt_AES_GCM W key iv ct of
        Inl e \<Rightarrow> Inl e
      | Inr d \<Rightarrow> Inr (TextDecoder_decode d))"
  unfolding decrypt_def Let_def split_envelope
  by (simp add: item_def truthy_def toHex_empty fromHex_toHex)

lemma sample_text: "stringify_accounts toy_json [sample_account] = [74, 66, 83, 87, 89, 51, 68, 80, 10]"
  by (simp add: toy_json_def sample_account_def)

lemma sample_bytes: "TextEncoder_encode [74, 66, 83, 87, 89, 51, 68, 80, 10] =
   [74, 66, 83, 87, 89, 51, 68, 80, 10]"
  by (simp add: TextEncoder_encode_def is_high_surrogate_def is_low_surrogate_def utf8_bytes_def)

lemma sample_back: "TextDecoder_decode [74, 66, 83, 87, 89, 51, 68, 80, 10] =
   [74, 66, 83, 87, 89, 51, 68, 80, 10]"
  by (simp add: TextDecoder_decode_def strip_bom_def utf16_units_def utf8_decode.simps)

lemma sample_keys: "deriveKey toy_webcrypto [0x70, 0x77] [10, 11] = [0x70, 0x77, 10, 11]"
  "deriveKey toy_webcrypto [0x78] [10, 11] = [0x78, 10, 11]"
  by (simp_all add: deriveKey_def toy_webcrypto_def TextEncoder_encode_def is_high_surrogate_def
      is_low_surrogate_def utf8_bytes_def)

lemma sample_blob_eq: "sample_blob = toHex [1, 2, 3, 4, 5, 6, 7, 8, 9, 10, 11, 12] @ '':'' @
   toHex (toy_encrypt [0x70, 0x77, 10, 11] [1, 2, 3, 4, 5, 6, 7, 8, 9, 10, 11, 12]
     [74, 66, 83, 87, 89, 51, 68, 80, 10])"
  unfolding sample_blob_def encrypt_envelope sample_text sample_bytes sample_keys
  by (simp add: toy_webcrypto_def)

lemma sample_blob_ne: "sample_blob \<noteq> []"
  by (simp add: sample_blob_eq)

lemma sample_user_loaded: "loadUser toy_json (localStorage sample_state) sample_user =
   Some \<lparr>salt = ''0a0b'', email = ''a@x.org''\<rparr>"
  by (simp add: loadUser_def sample_state_def getItem_def truthy_def toy_json_def Let_def
      storage_keys_differ storage_keys_differ [symmetric])

lemma sample_salt: "fromHex ''0a0b'' = Inr [10, 11]"
  using fromHex_toHex [of "[10, 11]"]
  by (simp add: toHex_def hex_byte_def padStart_def toString_radix.simps digit_char_def)

lemma sample_decrypt_wrong: "decrypt toy_webcrypto sample_blob [0x78, 10, 11] = Inl OperationError"
  unfolding sample_blob_eq
  by (subst decrypt_envelope) (simp_all add: toy_eval)

lemma sample_decrypt_right: "decrypt toy_webcrypto sample_blob [0x70, 0x77, 10, 11] =
   Inr [74, 66, 83, 87, 89, 51, 68, 80, 10]"
  unfolding sample_blob_eq
  by (subst decrypt_envelope) (simp_all add: toy_eval sample_back)

lemma sample_stored: "getItem (localStorage sample_state) (getStorageKey sample_user) = Some sample_blob"
  by (simp add: sample_state_def getItem_def)

lemma sample_load_wrong: "loadAccounts toy_webcrypto toy_json (localStorage sample_state)
    (deriveKey toy_webcrypto [0x78] [10, 11]) sample_user = Inl OperationError"
  unfolding sample_keys
  by (simp add: loadAccounts_def sample_stored truthy_def sample_blob_ne sample_decrypt_wrong)

lemma sample_load_right: "loadAccounts toy_webcrypto toy_json (localStorage sample_state)
    (deriveKey toy_webcrypto [0x70, 0x77] [10, 11]) sample_user = Inr []"
  unfolding sample_keys
  by (simp add: loadAccounts_def sample_stored truthy_def sample_blob_ne sample_decrypt_right toy_json_def)

text \<open>
  C6. Whenever \<^verbatim>\<open>handleChangePassword\<close> throws, the state is the one it was given. For a
  logged-in user with a stored record and salt: when loading the account blob under the key
  derived from the supplied current password and the stored salt fails, the handler throws
  the error of a wrong current password; when it succeeds, the handler returns, the blob
  under the user's key is replaced by the in-memory account list encrypted under the key
  derived from the new password and the same salt, the master key is that key, and the
  stored user record, with its salt, is as before.
\<close>

theorem handleChangePassword_verifies_then_rekeys:
  "(fst (handleChangePassword W J st cur new) = Inl e \<longrightarrow>
      snd (handleChangePassword W J st cur new) = st) \<and>
   (currentUser st = Some user \<and> user \<noteq> [] \<and> masterKey st = Some mk \<and>
    loadUser J (localStorage st) user = Some userData \<and>
    fromHex (salt userData) = Inr salt_bytes \<longrightarrow>
      (loadAccounts W J (localStorage st) (deriveKey W cur salt_bytes) user = Inl e' \<longrightarrow>
         handleChangePassword W J st cur new =
           (Inl (Error ''A senha atual esta incorreta.''), st)) \<and>
      (loadAccounts W J (localStorage st) (deriveKey W cur salt_bytes) user = Inr verified \<longrightarrow>
         handleChangePassword W J st cur new =
           (Inr (),
            st\<lparr>localStorage :=
                  (localStorage st)(getStorageKey user \<mapsto>
                     fst (encrypt W (randomSource st) (stringify_accounts J (accounts st))
                            (deriveKey W new salt_bytes))),
                randomSource :=
                  snd (encrypt W (randomSource st) (stringify_accounts J (accounts st))
                         (deriveKey W new salt_bytes)),
                masterKey := Some (deriveKey W new salt_bytes)\<rparr>) \<and>
         loadUser J (localStorage (snd (handleChangePassword W J st cur new))) user =
           Some userData))"
proof (intro conjI impI)
  assume "fst (handleChangePassword W J st cur new) = Inl e"
  then show "snd (handleChangePassword W J st cur new) = st"
    by (rule handleChangePassword_failure)
next
  assume "currentUser st = Some user \<and> user \<noteq> [] \<and> masterKey st = Some mk \<and>
    loadUser J (localStorage st) user = Some userData \<and> fromHex (salt userData) = Inr salt_bytes"
    and "loadAccounts W J (localStorage st) (deriveKey W cur salt_bytes) user = Inl e'"
  then show "handleChangePassword W J st cur new =
      (Inl (Error ''A senha atual esta incorreta.''), st)"
    by (simp add: handleChangePassword_def truthy_def)
next
  assume pre: "currentUser st = Some user \<and> user \<noteq> [] \<and> masterKey st = Some mk \<and>
    loadUser J (localStorage st) user = Some userData \<and> fromHex (salt userData) = Inr salt_bytes"
    and ok: "loadAccounts W J (localStorage st) (deriveKey W cur salt_bytes) user = Inr verified"
  then show res: "handleChangePassword W J st cur new =
      (Inr (),
       st\<lparr>localStorage :=
             (localStorage st)(getStorageKey user \<mapsto>
                fst (encrypt W (randomSource st) (stringify_accounts J (accounts st))
                       (deriveKey W new salt_bytes))),
           randomSource :=
             snd (encrypt W (randomSource st) (stringify_accounts J (accounts st))
                    (deriveKey W new salt_bytes)),
           masterKey := Some (deriveKey W new salt_bytes)\<rparr>)"
    by (simp add: handleChangePassword_def truthy_def saveAccounts_storage Let_def)
  from pre show "loadUser J (localStorage (snd (handleChangePassword W J st cur new))) user =
      Some userData"
    by (simp add: res loadUser_def getItem_def storage_keys_differ [symmetric])
qed


theorem handleChangePassword_verifies_then_rekeys_witness:
  "loadAccounts toy_webcrypto toy_json (localStorage sample_state)
     (deriveKey toy_webcrypto [0x78] [10, 11]) sample_user = Inl OperationError \<and>
   handleChangePassword toy_webcrypto toy_json sample_state [0x78] [0x6E, 0x65, 0x77] =
     (Inl (Error ''A senha atual esta incorreta.''), sample_state) \<and>
   loadAccounts toy_webcrypto toy_json (localStorage sample_state)
     (deriveKey toy_webcrypto [0x70, 0x77] [10, 11]) sample_user = Inr [] \<and>
   handleChangePassword toy_webcrypto toy_json sample_state [0x70, 0x77] [0x6E, 0x65, 0x77] =
     (Inr (),
      sample_state\<lparr>localStorage :=
           (localStorage sample_state)(getStorageKey sample_user \<mapsto>
              fst (encrypt toy_webcrypto (randomSource sample_state)
                     (stringify_accounts toy_json (accounts sample_state))
                     (deriveKey toy_webcrypto [0x6E, 0x65, 0x77] [10, 11]))),
         randomSource :=
           snd (encrypt toy_webcrypto (randomSource sample_state)
                  (stringify_accounts toy_json (accounts sample_state))
                  (deriveKey toy_webcrypto [0x6E, 0x65, 0x77] [10, 11])),
         masterKey := Some (deriveKey toy_webcrypto [0x6E, 0x65, 0x77] [10, 11])\<rparr>)"
proof -
  have pre: "currentUser sample_state = Some sample_user \<and> sample_user \<noteq> [] \<and>
      masterKey sample_state = Some (deriveKey toy_webcrypto [0x70, 0x77] [10, 11]) \<and>
      loadUser toy_json (localStorage sample_state) sample_user =
        Some \<lparr>salt = ''0a0b'', email = ''a@x.org''\<rparr> \<and>
      fromHex (salt \<lparr>salt = ''0a0b'', email = ''a@x.org''\<rparr>) = Inr [10, 11]"
    using sample_user_loaded sample_salt by (simp add: sample_state_def sample_user_def)
  note wrong = handleChangePassword_verifies_then_rekeys
      [where W = toy_webcrypto and J = toy_json and st = sample_state and cur = "[0x78]"
         and new = "[0x6E, 0x65, 0x77]" and user = sample_user
         and mk = "deriveKey toy_webcrypto [0x70, 0x77] [10, 11]"
         and userData = "\<lparr>salt = ''0a0b'', email = ''a@x.org''\<rparr>"
         and salt_bytes = "[10, 11]" and e' = OperationError,
       THEN conjunct2, THEN mp, OF pre, THEN conjunct1, THEN mp, OF sample_load_wrong]
  note right = handleChangePassword_verifies_then_rekeys
      [where W = toy_webcrypto and J = toy_json and st = sample_state and cur = "[0x70, 0x77]"
         and new = "[0x6E, 0x65, 0x77]" and user = sample_user
         and mk = "deriveKey toy_webcrypto [0x70, 0x77] [10, 11]"
         and userData = "\<lparr>salt = ''0a0b'', email = ''a@x.org''\<rparr>"
         and salt_bytes = "[10, 11]" and verified = "[]",
       THEN conjunct2, THEN mp, OF pre, THEN conjunct2, THEN mp, OF sample_load_right,
       THEN conjunct1]
  show ?thesis
    using wrong right sample_load_wrong sample_load_right by - (intro conjI; assumption)
qed

section \<open>Importing a migration payload: the secrets\<close>

lemma handleQrScan_migration_accounts:
  "ps \<noteq> [] \<Longrightarrow>
   handleQrScan_migration (Some ps) =
     Inr (map (\<lambda>param.
            \<lparr>issuer = the (or_else (or_else (otp_issuer param) (otp_name param)) (Some [])),
             name = the (or_else (otp_name param) (Some [])),
             secret = bytesToBase32 (case otp_secret param of None \<Rightarrow> [] | Some b \<Rightarrow> b),
             username = None, password = None\<rparr>) ps)"
  by (simp add: handleQrScan_migration_def)

lemma handleQrScan_migration_count:
  "ps \<noteq> [] \<Longrightarrow>
   \<exists>accs. handleQrScan_migration (Some ps) = Inr accs \<and> length accs = length ps"
  by (simp add: handleQrScan_migration_accounts)

text \<open>
  C7. A payload of one sub-message gives one account, and its secret is what
  \<^verbatim>\<open>bytesToBase32\<close> makes of the raw bytes; but for the six bytes of \<^verbatim>\<open>Hello!\<close> that
  text is \<^verbatim>\<open>JBSWY3DPE\<close>, nine symbols for 48 bits, and decoding it returns the five bytes
  of \<^verbatim>\<open>Hello\<close>: the last byte of the secret is lost at import.
\<close>

theorem handleQrScan_migration_loses_byte:
  "handleQrScan_migration
     (Some [\<lparr>otp_secret = Some [0x48, 0x65, 0x6C, 0x6C, 0x6F, 0x21],
            otp_name = Some ''alice'', otp_issuer = Some ''Example''\<rparr>]) =
     Inr [\<lparr>issuer = ''Example'', name = ''alice'', secret = ''JBSWY3DPE'',
           username = None, password = None\<rparr>] \<and>
   base32ToBytes ''JBSWY3DPE'' = Inr [0x48, 0x65, 0x6C, 0x6C, 0x6F]"
  by code_simp

end
